theory Spec2Isabelle
  imports Complex_Main
begin

section \<open>Python values\<close>

text \<open>
  The probe \<^verbatim>\<open>check_process_cpu_usage.py\<close> computes with Python floats, compares them
  and stores them as JSON. A float is modelled by its value: a real number, or one of the
  two infinities that \<^verbatim>\<open>float("inf")\<close> and \<^verbatim>\<open>float("-inf")\<close> give. Rounding to
  double precision and NaN are outside the model; the order of the doubles is the order
  of the reals, which is all the threshold comparisons use.
\<close>

datatype pyfloat = NegInf | Fin real | PosInf

text \<open>The comparison operators \<^verbatim>\<open><\<close> and \<^verbatim>\<open><=\<close> of Python floats.\<close>

fun float_lt :: "pyfloat \<Rightarrow> pyfloat \<Rightarrow> bool" where
  "float_lt NegInf NegInf = False"
| "float_lt NegInf (Fin b) = True"
| "float_lt NegInf PosInf = True"
| "float_lt (Fin a) NegInf = False"
| "float_lt (Fin a) (Fin b) = (a < b)"
| "float_lt (Fin a) PosInf = True"
| "float_lt PosInf y = False"

definition float_le :: "pyfloat \<Rightarrow> pyfloat \<Rightarrow> bool" where
  "float_le x y = (x = y \<or> float_lt x y)"

text \<open>
  Python is dynamically typed: the annotations of \<^verbatim>\<open>CpuTimesNamedTuple\<close> are not
  checked when a tuple is built, so a field holds whatever value the JSON document gave
  it. \<open>pyval\<close> is the set of values \<^verbatim>\<open>json.load\<close> can return; a JSON object is an
  association list from its keys to its values.
\<close>

datatype pyval =
    PyNone
  | PyBool bool
  | PyInt int
  | PyFloat pyfloat
  | PyStr string
  | PyList "pyval list"
  | PyDict "(string \<times> pyval) list"

text \<open>
  The numeric value of a Python value, where it has one: \<^verbatim>\<open>isinstance(number,
  (float, int))\<close> holds of floats, of ints and of bools (\<^verbatim>\<open>bool\<close> is a subclass of
  \<^verbatim>\<open>int\<close>).
\<close>

fun num_of :: "pyval \<Rightarrow> pyfloat option" where
  "num_of (PyBool b) = Some (Fin (if b then 1 else 0))"
| "num_of (PyInt n) = Some (Fin (of_int n))"
| "num_of (PyFloat x) = Some x"
| "num_of v = None"

text \<open>
  A string built with the \<^verbatim>\<open>%\<close> operator is kept as its format string and its
  operands, in order: how Python prints each operand is not modelled. An operand is a
  value or a string that was itself built with \<^verbatim>\<open>%\<close>.
\<close>

datatype message = Percent string "operand list"
  and operand = Val pyval | Str message

section \<open>Exceptions\<close>

datatype exc_class =
    AssertionError
  | FileNotFoundError
  | PermissionError
  | JSONDecodeError
  | TypeError
  | ValueError
  | OverflowError
  | AttributeError
  | RuntimeError
  | ZeroDivisionError
  | OtherError string

datatype pyexc = Exc exc_class message

fun class_name :: "exc_class \<Rightarrow> string" where
  "class_name AssertionError = ''AssertionError''"
| "class_name FileNotFoundError = ''FileNotFoundError''"
| "class_name PermissionError = ''PermissionError''"
| "class_name JSONDecodeError = ''JSONDecodeError''"
| "class_name TypeError = ''TypeError''"
| "class_name ValueError = ''ValueError''"
| "class_name OverflowError = ''OverflowError''"
| "class_name AttributeError = ''AttributeError''"
| "class_name RuntimeError = ''RuntimeError''"
| "class_name ZeroDivisionError = ''ZeroDivisionError''"
| "class_name (OtherError n) = n"

fun exc_class_of :: "pyexc \<Rightarrow> exc_class" where
  "exc_class_of (Exc c m) = c"

text \<open>A computation that may raise: \<open>Inl\<close> is the exception.\<close>

definition bindE :: "pyexc + 'a \<Rightarrow> ('a \<Rightarrow> pyexc + 'b) \<Rightarrow> pyexc + 'b" where
  "bindE m f = (case m of Inl e \<Rightarrow> Inl e | Inr x \<Rightarrow> f x)"

section \<open>NagiosThreshold\<close>

subsection \<open>The regular expression\<close>

text \<open>
  \<^verbatim>\<open>re.match(r"^(?P<is_inclusive>@?)((?P<low_boundary>(\d+(\.\d+)?|~))?:)?(?P<high_boundary>\d+(\.\d+)?)?", raw)\<close>

  A backtracking matcher tries the ways a pattern can match in a fixed order: a greedy
  repetition the longest first, an alternative the left branch first, an optional group
  its body before the empty match. Each piece of the pattern is modelled by the list of
  its matches at the start of a string, in that order: a match is the text it consumed
  and the rest of the string. The match \<^verbatim>\<open>re.match\<close> returns is the first of the list
  for the whole pattern. The pattern has no \<^verbatim>\<open>$\<close>: a match need not reach the end of
  the string. Characters are bytes here, so \<^verbatim>\<open>\d\<close> is an ASCII digit.
\<close>

definition is_digit :: "char \<Rightarrow> bool" where
  "is_digit c = (c \<in> set ''0123456789'')"

text \<open>\<^verbatim>\<open>\d+\<close>: the digits at the start, the longest run first, at least one.\<close>

definition rx_digits :: "string \<Rightarrow> (string \<times> string) list" where
  "rx_digits s =
     map (\<lambda>n. (take n s, drop n s)) (rev [1 ..< Suc (length (takeWhile is_digit s))])"

text \<open>\<^verbatim>\<open>\d+(\.\d+)?\<close>: after the digits, the fraction is tried before its absence.\<close>

definition rx_number :: "string \<Rightarrow> (string \<times> string) list" where
  "rx_number s =
     concat (map (\<lambda>(d1, r).
       (case r of
          [] \<Rightarrow> []
        | c # r' \<Rightarrow>
            if c = CHR ''.'' then map (\<lambda>(d2, r''). (d1 @ ''.'' @ d2, r'')) (rx_digits r')
            else [])
       @ [(d1, r)]) (rx_digits s))"

text \<open>\<^verbatim>\<open>(\d+(\.\d+)?|~)\<close>: the number first, then the tilde.\<close>

definition rx_low :: "string \<Rightarrow> (string \<times> string) list" where
  "rx_low s =
     rx_number s @ (case s of [] \<Rightarrow> [] | c # r \<Rightarrow> if c = CHR ''~'' then [(''~'', r)] else [])"

text \<open>
  \<^verbatim>\<open>((?P<low_boundary>...)?:)?\<close>: the body is an optional low boundary and then a
  colon; when the body does not match, the group matches the empty string and
  \<^verbatim>\<open>low_boundary\<close> is unset (\<open>None\<close>).
\<close>

definition rx_colon :: "string option \<times> string \<Rightarrow> (string option \<times> string) list" where
  "rx_colon m =
     (case m of (low, r) \<Rightarrow>
        (case r of [] \<Rightarrow> [] | c # r' \<Rightarrow> if c = CHR '':'' then [(low, r')] else []))"

definition rx_colon_group :: "string \<Rightarrow> (string option \<times> string) list" where
  "rx_colon_group s =
     concat (map rx_colon (map (\<lambda>(l, r). (Some l, r)) (rx_low s) @ [(None, s)]))
     @ [(None, s)]"

text \<open>\<^verbatim>\<open>(?P<high_boundary>\d+(\.\d+)?)?\<close>\<close>

definition rx_high :: "string \<Rightarrow> (string option \<times> string) list" where
  "rx_high s = map (\<lambda>(h, r). (Some h, r)) (rx_number s) @ [(None, s)]"

text \<open>\<^verbatim>\<open>(?P<is_inclusive>@?)\<close>: the group always takes part, with \<^verbatim>\<open>"@"\<close> or \<^verbatim>\<open>""\<close>.\<close>

definition rx_inclusive :: "string \<Rightarrow> (string \<times> string) list" where
  "rx_inclusive s =
     (case s of [] \<Rightarrow> [] | c # r \<Rightarrow> if c = CHR ''@'' then [(''@'', r)] else []) @ [('''', s)]"

text \<open>
  The whole pattern, and \<^verbatim>\<open>matcher.groupdict()\<close> of the first match: the three named
  groups. \<open>None\<close> is \<^verbatim>\<open>re.match\<close> returning \<^verbatim>\<open>None\<close>.
\<close>

definition rx_threshold :: "string \<Rightarrow> (string \<times> string option \<times> string option) list" where
  "rx_threshold raw =
     concat (map (\<lambda>(is_inclusive, r1).
       concat (map (\<lambda>(low, r2).
         map (\<lambda>(high, r3). (is_inclusive, low, high)) (rx_high r2))
       (rx_colon_group r1)))
     (rx_inclusive raw))"

definition re_match :: "string \<Rightarrow> (string \<times> string option \<times> string option) option" where
  "re_match raw = (case rx_threshold raw of [] \<Rightarrow> None | m # ms \<Rightarrow> Some m)"

subsection \<open>The constructor and the test\<close>

text \<open>
  \<^verbatim>\<open>float(text)\<close> on the texts the pattern captures: digits, or digits, a point and
  digits. The value is the decimal number the text writes. On any other text the model
  raises \<^verbatim>\<open>ValueError\<close>, as \<^verbatim>\<open>float\<close> does on a text that is no number;
  \<^verbatim>\<open>float\<close> reads further forms (signs, exponents), which the pattern never captures.
\<close>

definition digit_val :: "char \<Rightarrow> nat" where
  "digit_val c = length (takeWhile (\<lambda>d. d \<noteq> c) ''0123456789'')"

definition nat_of_digits :: "string \<Rightarrow> nat" where
  "nat_of_digits ds = foldl (\<lambda>a c. 10 * a + digit_val c) 0 ds"

definition py_float :: "string \<Rightarrow> pyexc + pyfloat" where
  "py_float s =
     (let d1 = takeWhile is_digit s; r = dropWhile is_digit s in
      if d1 = [] then Inl (Exc ValueError (Percent ''could not convert string to float: %r'' [Val (PyStr s)]))
      else (case r of
          [] \<Rightarrow> Inr (Fin (real (nat_of_digits d1)))
        | c # d2 \<Rightarrow>
            if c = CHR ''.'' \<and> d2 \<noteq> [] \<and> list_all is_digit d2
            then Inr (Fin (real (nat_of_digits d1) + real (nat_of_digits d2) / 10 ^ length d2))
            else Inl (Exc ValueError (Percent ''could not convert string to float: %r'' [Val (PyStr s)]))))"

record NagiosThreshold =
  inclusive :: bool
  low_boundary :: pyfloat
  high_boundary :: pyfloat

text \<open>
  \<^verbatim>\<open>NagiosThreshold.__init__\<close>. The two \<^verbatim>\<open>assert\<close>s raise \<^verbatim>\<open>AssertionError\<close>;
  \<^verbatim>\<open>bool(matched["is_inclusive"])\<close> is true of the non-empty string.
\<close>

definition NagiosThreshold_init :: "string \<Rightarrow> pyexc + NagiosThreshold" where
  "NagiosThreshold_init raw =
     (if raw = [] then
        Inl (Exc AssertionError (Percent ''raw parameter must be a non-empty string'' []))
      else (case re_match raw of
          None \<Rightarrow>
            Inl (Exc AssertionError
              (Percent ''cannot parsed threshold %s, did not match regexp'' [Val (PyStr raw)]))
        | Some (is_inclusive, low, high) \<Rightarrow>
            bindE (case low of
                     None \<Rightarrow> Inr (Fin 0)
                   | Some l \<Rightarrow> if l = ''~'' then Inr NegInf else py_float l) (\<lambda>lo.
            bindE (case high of
                     None \<Rightarrow> Inr PosInf
                   | Some h \<Rightarrow> py_float h) (\<lambda>hi.
            Inr \<lparr>inclusive = (is_inclusive \<noteq> []), low_boundary = lo, high_boundary = hi\<rparr>))))"

text \<open>
  \<^verbatim>\<open>NagiosThreshold.is_outside_boundaries\<close>: the text of the test that failed, or
  \<open>None\<close>. \<^verbatim>\<open>number >= high\<close> is \<^verbatim>\<open>high <= number\<close>.
\<close>

definition is_outside_boundaries :: "NagiosThreshold \<Rightarrow> pyval \<Rightarrow> pyexc + message option" where
  "is_outside_boundaries self number =
     (case num_of number of
        None \<Rightarrow> Inl (Exc AssertionError (Percent ''number parameter must be a float or int'' []))
      | Some x \<Rightarrow>
          if inclusive self then
            (if float_lt x (low_boundary self) then
               Inr (Some (Percent ''%s<%s'' [Val number, Val (PyFloat (low_boundary self))]))
             else if float_lt (high_boundary self) x then
               Inr (Some (Percent ''%s>%s'' [Val number, Val (PyFloat (high_boundary self))]))
             else Inr None)
          else
            (if float_le x (low_boundary self) then
               Inr (Some (Percent ''%s<=%s'' [Val number, Val (PyFloat (low_boundary self))]))
             else if float_le (high_boundary self) x then
               Inr (Some (Percent ''%s>=%s'' [Val number, Val (PyFloat (high_boundary self))]))
             else Inr None))"

section \<open>Standard output, the file system, exits\<close>

text \<open>
  A state file is text on disk. \<^verbatim>\<open>json.dump\<close> and \<^verbatim>\<open>json.load\<close> are the standard
  library's: the model keeps a file's content as the JSON document it holds (\<open>Doc\<close>),
  or as \<open>Garbage\<close> when the text is no JSON document and \<^verbatim>\<open>json.load\<close> raises. A path
  names a file, with the right to read it and the right to write it, or no file, with the
  right to create one there.
\<close>

datatype content = Garbage | Doc pyval

datatype slot = Missing bool | File bool bool content

type_synonym filesystem = "string \<Rightarrow> slot"

text \<open>
  The state a run changes: the lines it printed, in order, and the files.
\<close>

record state =
  stdout :: "message list"
  files :: filesystem

definition print :: "message \<Rightarrow> state \<Rightarrow> state" where
  "print m s = s\<lparr>stdout := stdout s @ [m]\<rparr>"

text \<open>
  How a call ends: it returns, it raises an exception, or \<^verbatim>\<open>sys.exit(code)\<close> ends the
  program (\<^verbatim>\<open>SystemExit\<close> is no \<^verbatim>\<open>Exception\<close>: \<^verbatim>\<open>except Exception\<close> lets it pass).
\<close>

datatype 'a result = Return 'a | Raise pyexc | SysExit nat

text \<open>
  \<^verbatim>\<open>tb2unknown\<close>, with the module's global \<^verbatim>\<open>DEBUG\<close> and \<^verbatim>\<open>method.__name__\<close> as
  arguments.
\<close>

definition tb2unknown ::
  "bool \<Rightarrow> string \<Rightarrow> (state \<Rightarrow> 'a result \<times> state) \<Rightarrow> state \<Rightarrow> 'a result \<times> state" where
  "tb2unknown DEBUG name method s =
     (case method s of
        (Return f_result, s') \<Rightarrow> (Return f_result, s')
      | (SysExit code, s') \<Rightarrow> (SysExit code, s')
      | (Raise e, s') \<Rightarrow>
          (let s'' = print (Percent ''UNKNOWN: Got exception while running %s: %s: %s''
                 [Val (PyStr name), Val (PyStr (class_name (exc_class_of e))),
                  Str (case e of Exc c m \<Rightarrow> m)]) s'
           in if DEBUG then (Raise e, s'') else (SysExit 3, s'')))"

text \<open>\<^verbatim>\<open>open(path, "r")\<close> and \<^verbatim>\<open>json.load\<close>.\<close>

definition open_read :: "filesystem \<Rightarrow> string \<Rightarrow> pyexc + content" where
  "open_read fs path =
     (case fs path of
        Missing creatable \<Rightarrow>
          Inl (Exc FileNotFoundError
            (Percent ''[Errno 2] No such file or directory: %r'' [Val (PyStr path)]))
      | File readable writable c \<Rightarrow>
          if readable then Inr c
          else Inl (Exc PermissionError
            (Percent ''[Errno 13] Permission denied: %r'' [Val (PyStr path)])))"

definition json_load :: "content \<Rightarrow> pyexc + pyval" where
  "json_load c =
     (case c of
        Garbage \<Rightarrow> Inl (Exc JSONDecodeError (Percent ''Expecting value'' []))
      | Doc data \<Rightarrow> Inr data)"

text \<open>
  \<^verbatim>\<open>open(path, "w")\<close> and \<^verbatim>\<open>json.dump\<close>: the file is created or replaced and holds
  the document.
\<close>

definition write_json :: "filesystem \<Rightarrow> string \<Rightarrow> pyval \<Rightarrow> pyexc + filesystem" where
  "write_json fs path data =
     (case fs path of
        Missing creatable \<Rightarrow>
          if creatable then Inr (fs(path := File True True (Doc data)))
          else Inl (Exc PermissionError
            (Percent ''[Errno 13] Permission denied: %r'' [Val (PyStr path)]))
      | File readable writable c \<Rightarrow>
          if writable then Inr (fs(path := File readable writable (Doc data)))
          else Inl (Exc PermissionError
            (Percent ''[Errno 13] Permission denied: %r'' [Val (PyStr path)])))"

section \<open>CpuTimesNamedTuple\<close>

record CpuTimesNamedTuple =
  pid :: pyval
  timestamp :: pyval
  user :: pyval
  system :: pyval
  children_user :: pyval
  children_system :: pyval
  iowait :: pyval

definition field_names :: "string list" where
  "field_names =
     [''pid'', ''timestamp'', ''user'', ''system'', ''children_user'', ''children_system'',
      ''iowait'']"

text \<open>\<^verbatim>\<open>self._asdict()\<close>\<close>

definition asdict :: "CpuTimesNamedTuple \<Rightarrow> (string \<times> pyval) list" where
  "asdict self =
     [(''pid'', pid self), (''timestamp'', timestamp self), (''user'', user self),
      (''system'', system self), (''children_user'', children_user self),
      (''children_system'', children_system self), (''iowait'', iowait self)]"

text \<open>
  \<^verbatim>\<open>cls(**data)\<close>: \<^verbatim>\<open>data\<close> must be a mapping; a key that is no field and a field
  with no key are a \<^verbatim>\<open>TypeError\<close>. The values are not looked at.
\<close>

definition kwarg :: "(string \<times> pyval) list \<Rightarrow> string \<Rightarrow> pyexc + pyval" where
  "kwarg kw name =
     (case map_of kw name of
        None \<Rightarrow>
          Inl (Exc TypeError
            (Percent ''__new__() missing 1 required positional argument: %r'' [Val (PyStr name)]))
      | Some v \<Rightarrow> Inr v)"

definition cls_kwargs :: "pyval \<Rightarrow> pyexc + CpuTimesNamedTuple" where
  "cls_kwargs data =
     (case data of
        PyDict kw \<Rightarrow>
          if \<not> list_all (\<lambda>k. k \<in> set field_names) (map fst kw) then
            Inl (Exc TypeError (Percent ''__new__() got an unexpected keyword argument'' []))
          else
            bindE (kwarg kw ''pid'') (\<lambda>a1.
            bindE (kwarg kw ''timestamp'') (\<lambda>a2.
            bindE (kwarg kw ''user'') (\<lambda>a3.
            bindE (kwarg kw ''system'') (\<lambda>a4.
            bindE (kwarg kw ''children_user'') (\<lambda>a5.
            bindE (kwarg kw ''children_system'') (\<lambda>a6.
            bindE (kwarg kw ''iowait'') (\<lambda>a7.
            Inr \<lparr>pid = a1, timestamp = a2, user = a3, system = a4, children_user = a5,
                 children_system = a6, iowait = a7\<rparr>)))))))
      | _ \<Rightarrow> Inl (Exc TypeError (Percent ''argument after ** must be a mapping'' [])))"

text \<open>\<^verbatim>\<open>CpuTimesNamedTuple.load_from_disk\<close> (not decorated).\<close>

definition load_from_disk :: "string \<Rightarrow> filesystem \<Rightarrow> pyexc + CpuTimesNamedTuple" where
  "load_from_disk path fs = bindE (open_read fs path) (\<lambda>c. bindE (json_load c) cls_kwargs)"

text \<open>\<^verbatim>\<open>CpuTimesNamedTuple.save_to_disk\<close>, decorated with \<^verbatim>\<open>tb2unknown\<close>.\<close>

definition save_to_disk ::
  "bool \<Rightarrow> CpuTimesNamedTuple \<Rightarrow> string \<Rightarrow> state \<Rightarrow> unit result \<times> state" where
  "save_to_disk DEBUG self path =
     tb2unknown DEBUG ''save_to_disk'' (\<lambda>s.
       case write_json (files s) path (PyDict (asdict self)) of
         Inl e \<Rightarrow> (Raise e, s)
       | Inr fs' \<Rightarrow> (Return (), s\<lparr>files := fs'\<rparr>))"

section \<open>The collaborator: psutil\<close>

text \<open>
  \<^verbatim>\<open>psutil\<close> is a library the probe imports. What the probe touches of a
  \<^verbatim>\<open>psutil.Process\<close> object are its two private attributes, both \<^verbatim>\<open>None\<close> in a new
  object: \<^verbatim>\<open>_last_sys_cpu_times\<close>, and \<^verbatim>\<open>_last_proc_cpu_times\<close>, a \<^verbatim>\<open>pcputimes\<close>
  tuple.
\<close>

datatype pcputimes =
  Pcputimes (pt_user: pyval) (pt_system: pyval) (pt_children_user: pyval)
    (pt_children_system: pyval) (pt_iowait: pyval)

record process =
  last_sys_cpu_times :: pyval
  last_proc_cpu_times :: "pcputimes option"

definition new_process :: process where
  "new_process = \<lparr>last_sys_cpu_times = PyNone, last_proc_cpu_times = None\<rparr>"

text \<open>
  The library's behaviour is a parameter of the model: whether \<^verbatim>\<open>psutil.Process(pid)\<close>
  raises, what \<^verbatim>\<open>is_running()\<close> answers, what \<^verbatim>\<open>cpu_percent()\<close> returns for an object
  in a given state and the state it leaves the object in (or the exception it raises), and
  what \<^verbatim>\<open>psutil.cpu_count()\<close> returns (\<open>None\<close> is Python's \<^verbatim>\<open>None\<close>).
\<close>

record psutil =
  Process_init :: "int \<Rightarrow> pyexc option"
  is_running :: "int \<Rightarrow> bool"
  cpu_percent :: "int \<Rightarrow> process \<Rightarrow> pyexc + (pyval \<times> process)"
  cpu_count :: "int option"

section \<open>get\_pid\_cpu\_percent\<close>

text \<open>\<^verbatim>\<open>previous.pid != pid\<close>, where \<^verbatim>\<open>pid\<close> is an int and \<^verbatim>\<open>previous.pid\<close> any value.\<close>

fun py_ne_int :: "pyval \<Rightarrow> int \<Rightarrow> bool" where
  "py_ne_int (PyInt n) p = (n \<noteq> p)"
| "py_ne_int (PyBool b) p = ((if b then 1 else 0) \<noteq> p)"
| "py_ne_int (PyFloat (Fin r)) p = (r \<noteq> of_int p)"
| "py_ne_int v p = True"

text \<open>
  What the conversion \<^verbatim>\<open>%d\<close> raises on an operand: nothing on a number,
  \<^verbatim>\<open>OverflowError\<close> on an infinity, \<^verbatim>\<open>TypeError\<close> on anything else.
\<close>

fun percent_d :: "pyval \<Rightarrow> pyexc option" where
  "percent_d (PyInt n) = None"
| "percent_d (PyBool b) = None"
| "percent_d (PyFloat (Fin r)) = None"
| "percent_d (PyFloat x) =
     Some (Exc OverflowError (Percent ''cannot convert float infinity to integer'' []))"
| "percent_d v = Some (Exc TypeError (Percent ''%d format: a real number is required'' []))"

text \<open>
  Lines 272 to 286: the load of the previous state and the three flags.
\<close>

record load_flags =
  has_load_missing :: bool
  has_load_error :: bool
  has_pid_changed :: bool
  exc :: "pyexc option"
  previous :: "CpuTimesNamedTuple option"

definition load_previous :: "int \<Rightarrow> string \<Rightarrow> filesystem \<Rightarrow> load_flags" where
  "load_previous pid' buffer_file fs =
     (case load_from_disk buffer_file fs of
        Inr prev \<Rightarrow>
          \<lparr>has_load_missing = False, has_load_error = False,
           has_pid_changed = py_ne_int (pid prev) pid', exc = None, previous = Some prev\<rparr>
      | Inl e \<Rightarrow>
          if exc_class_of e = FileNotFoundError then
            \<lparr>has_load_missing = True, has_load_error = False, has_pid_changed = False,
             exc = Some e, previous = None\<rparr>
          else
            \<lparr>has_load_missing = False, has_load_error = True, has_pid_changed = False,
             exc = Some e, previous = None\<rparr>)"

text \<open>
  Lines 288 to 293: the previous state put back into the \<^verbatim>\<open>Process\<close> object. The
  source passes \<^verbatim>\<open>children_system=previous.children_user\<close>.
\<close>

definition reload_previous :: "load_flags \<Rightarrow> process \<Rightarrow> process" where
  "reload_previous ld process =
     (case previous ld of
        Some prev \<Rightarrow>
          if \<not> has_load_missing ld \<and> \<not> has_load_error ld \<and> \<not> has_pid_changed ld then
            process\<lparr>last_sys_cpu_times := timestamp prev,
              last_proc_cpu_times :=
                Some (Pcputimes (user prev) (system prev) (children_user prev)
                  (children_user prev) (iowait prev))\<rparr>
          else process
      | None \<Rightarrow> process)"

text \<open>The three errors of lines 310 to 315.\<close>

definition first_run_error :: "string \<Rightarrow> pyexc \<Rightarrow> pyexc" where
  "first_run_error buffer_file e =
     Exc RuntimeError (Percent ''First run, creating buffers at %s: %s: %s''
       [Val (PyStr buffer_file), Val (PyStr (class_name (exc_class_of e))),
        Str (case e of Exc c m \<Rightarrow> m)])"

definition corrupted_error :: "string \<Rightarrow> pyexc \<Rightarrow> pyexc" where
  "corrupted_error buffer_file e =
     Exc RuntimeError (Percent ''Buffer file at %s was corrupted: %s: %s''
       [Val (PyStr buffer_file), Val (PyStr (class_name (exc_class_of e))),
        Str (case e of Exc c m \<Rightarrow> m)])"

definition pid_changed_error :: "pyval \<Rightarrow> int \<Rightarrow> pyexc" where
  "pid_changed_error previous_pid pid' =
     (case percent_d previous_pid of
        Some e \<Rightarrow> e
      | None \<Rightarrow>
          Exc RuntimeError (Percent ''Process pid has changed from %d to %s''
            [Val previous_pid, Val (PyInt pid')]))"

text \<open>
  Lines 295 to 306: the percentage, and the tuple built from the object's attributes
  after the call. Reading an attribute of \<^verbatim>\<open>None\<close> raises \<^verbatim>\<open>AttributeError\<close>.
\<close>

definition parse_process :: "int \<Rightarrow> process \<Rightarrow> pyexc + CpuTimesNamedTuple" where
  "parse_process pid' process =
     (case last_proc_cpu_times process of
        None \<Rightarrow>
          Inl (Exc AttributeError (Percent ''NoneType object has no attribute user'' []))
      | Some t \<Rightarrow>
          Inr \<lparr>pid = PyInt pid', timestamp = last_sys_cpu_times process, user = pt_user t,
               system = pt_system t, children_user = pt_children_user t,
               children_system = pt_children_system t, iowait = pt_iowait t\<rparr>)"

text \<open>
  Lines 309 to 317, after the save: one \<^verbatim>\<open>RuntimeError\<close> for each flag, or the
  percentage. \<^verbatim>\<open>exc\<close> is \<^verbatim>\<open>None\<close> and \<^verbatim>\<open>previous\<close> unbound only where the flag
  that reads them is not set; the model gives what Python would do there.
\<close>

definition raise_or_return :: "load_flags \<Rightarrow> string \<Rightarrow> int \<Rightarrow> pyval \<Rightarrow> pyval result" where
  "raise_or_return ld buffer_file pid' cpu_percent' =
     (if has_load_missing ld then
        Raise (first_run_error buffer_file
          (case exc ld of Some e \<Rightarrow> e | None \<Rightarrow> Exc (OtherError ''NoneType'') (Percent ''None'' [])))
      else if has_load_error ld then
        Raise (corrupted_error buffer_file
          (case exc ld of Some e \<Rightarrow> e | None \<Rightarrow> Exc (OtherError ''NoneType'') (Percent ''None'' [])))
      else if has_pid_changed ld then
        (case previous ld of
           Some prev \<Rightarrow> Raise (pid_changed_error (pid prev) pid')
         | None \<Rightarrow> Raise (Exc (OtherError ''UnboundLocalError'') (Percent ''previous'' [])))
      else Return cpu_percent')"

text \<open>The body of \<^verbatim>\<open>get_pid_cpu_percent\<close>, and the decorated function.\<close>

definition get_pid_cpu_percent_body ::
  "psutil \<Rightarrow> bool \<Rightarrow> int \<Rightarrow> string \<Rightarrow> state \<Rightarrow> pyval result \<times> state" where
  "get_pid_cpu_percent_body ps DEBUG pid' buffer_file s =
     (case Process_init ps pid' of
        Some e \<Rightarrow> (Raise e, s)
      | None \<Rightarrow>
     if \<not> is_running ps pid' then
       (Raise (Exc AssertionError (Percent ''PID %d is not running'' [Val (PyInt pid')])), s)
     else
       let ld = load_previous pid' buffer_file (files s);
           process = reload_previous ld new_process
       in
       (case cpu_percent ps pid' process of
          Inl e \<Rightarrow> (Raise e, s)
        | Inr (cpu_percent', process') \<Rightarrow>
       (case parse_process pid' process' of
          Inl e \<Rightarrow> (Raise e, s)
        | Inr parsed \<Rightarrow>
       (case save_to_disk DEBUG parsed buffer_file s of
          (Raise e, s') \<Rightarrow> (Raise e, s')
        | (SysExit code, s') \<Rightarrow> (SysExit code, s')
        | (Return u, s') \<Rightarrow> (raise_or_return ld buffer_file pid' cpu_percent', s')))))"

definition get_pid_cpu_percent ::
  "psutil \<Rightarrow> bool \<Rightarrow> int \<Rightarrow> string \<Rightarrow> state \<Rightarrow> pyval result \<times> state" where
  "get_pid_cpu_percent ps DEBUG pid' buffer_file =
     tb2unknown DEBUG ''get_pid_cpu_percent'' (get_pid_cpu_percent_body ps DEBUG pid' buffer_file)"

section \<open>get\_pid\_from\_command\<close>

text \<open>
  The shell command is the world's: \<open>popen\<close> gives its exit code, its standard output and
  its standard error. \<^verbatim>\<open>bytes.strip\<close> removes ASCII whitespace at both ends;
  \<^verbatim>\<open>isdigit\<close> holds of a non-empty run of ASCII digits; \<^verbatim>\<open>int(stdout)\<close> reads the
  digits, whitespace around them ignored.
\<close>

definition is_space :: "char \<Rightarrow> bool" where
  "is_space c = (c \<in> set [CHR '' '', CHR 0x09, CHR 0x0A, CHR 0x0B, CHR 0x0C, CHR 0x0D])"

definition strip :: "string \<Rightarrow> string" where
  "strip s = rev (dropWhile is_space (rev (dropWhile is_space s)))"

definition isdigit :: "string \<Rightarrow> bool" where
  "isdigit s = (s \<noteq> [] \<and> list_all is_digit s)"

definition get_pid_from_command ::
  "bool \<Rightarrow> (string \<Rightarrow> int \<times> string \<times> string) \<Rightarrow> string \<Rightarrow> state \<Rightarrow> int result \<times> state" where
  "get_pid_from_command DEBUG popen shell_command =
     tb2unknown DEBUG ''get_pid_from_command'' (\<lambda>s.
       case popen shell_command of (returncode, out, err) \<Rightarrow>
         if returncode \<noteq> 0 then
           (Raise (Exc AssertionError (Percent ''Command return exit code != 0: output: %s %s''
              [Val (PyStr out), Val (PyStr err)])), s)
         else if \<not> isdigit (strip out) then
           (Raise (Exc AssertionError
              (Percent ''Command return stdout %s that cannot be converter to PID (integer)''
                 [Val (PyStr out)])), s)
         else (Return (int (nat_of_digits (strip out))), s))"

section \<open>The main program\<close>

record config =
  warning :: string
  critical :: string
  pid_cmd :: string
  debug :: bool

text \<open>
  \<^verbatim>\<open>parse_args()\<close>: the command line is the world's, given by what
  \<^verbatim>\<open>argparse\<close> makes of it: either \<^verbatim>\<open>NagiosArgumentParser.error(message)\<close> is called,
  or the namespace is returned.
\<close>

datatype arguments = BadArguments string | Namespace config

record world =
  argv :: arguments
  popen :: "string \<Rightarrow> int \<times> string \<times> string"
  ps :: psutil
  buffer_path :: "int \<Rightarrow> string"

text \<open>
  How the program ends: with an exit code, or with an exception no handler caught; the
  interpreter then prints a traceback on standard error and the process ends with
  status 1.
\<close>

datatype outcome = Exit nat | Uncaught pyexc

fun exit_status :: "outcome \<Rightarrow> nat" where
  "exit_status (Exit code) = code"
| "exit_status (Uncaught e) = 1"

text \<open>
  Lines 347 to 364: \<^verbatim>\<open>MESSAGE\<close> and \<^verbatim>\<open>CODE\<close>. A text that
  \<^verbatim>\<open>is_outside_boundaries\<close> returns holds its comparison sign, so it is never the empty
  string and \<^verbatim>\<open>if OUTSIDE_THRESHOLD_CRITICAL\<close> tests it against \<^verbatim>\<open>None\<close>.
\<close>

definition message_and_code ::
  "pyval \<Rightarrow> int \<Rightarrow> NagiosThreshold \<Rightarrow> message option \<Rightarrow> message option \<Rightarrow> message \<times> nat" where
  "message_and_code CPU_PERCENT PID THRESHOLD_WARNING OUTSIDE_THRESHOLD_WARNING
       OUTSIDE_THRESHOLD_CRITICAL =
     (case OUTSIDE_THRESHOLD_CRITICAL of
        Some outside \<Rightarrow>
          (Percent ''CRITICAL: %1.f%% CPU usage for PID %d is outside critical limits (%s)''
             [Val CPU_PERCENT, Val (PyInt PID), Str outside], 2)
      | None \<Rightarrow>
     (case OUTSIDE_THRESHOLD_WARNING of
        Some outside \<Rightarrow>
          (Percent ''WARNING: %.1f%% CPU usage for PID %d is outside warning limits (%s)''
             [Val CPU_PERCENT, Val (PyInt PID), Str outside], 1)
      | None \<Rightarrow>
          (Percent ''OK: %.1f%% CPU usage for PID %d is inside limits (%s%s%s and %s%s%s)''
             [Val CPU_PERCENT, Val (PyInt PID), Val CPU_PERCENT,
              Val (PyStr (if inclusive THRESHOLD_WARNING then ''>='' else ''>'')),
              Val (PyFloat (low_boundary THRESHOLD_WARNING)), Val CPU_PERCENT,
              Val (PyStr (if inclusive THRESHOLD_WARNING then ''<='' else ''<'')),
              Val (PyFloat (high_boundary THRESHOLD_WARNING))], 0)))"

text \<open>
  Lines 329 to 367, after \<^verbatim>\<open>CPU_PERCENT\<close> is known. Nothing here is decorated: an
  exception ends the program uncaught. \<^verbatim>\<open>psutil.cpu_count() * 100\<close> raises
  \<^verbatim>\<open>TypeError\<close> when the count is \<^verbatim>\<open>None\<close>.
\<close>

definition report ::
  "config \<Rightarrow> int option \<Rightarrow> int \<Rightarrow> pyval \<Rightarrow> state \<Rightarrow> outcome \<times> state" where
  "report CONFIG count PID CPU_PERCENT s =
     (case NagiosThreshold_init (warning CONFIG) of
        Inl e \<Rightarrow> (Uncaught e, s)
      | Inr THRESHOLD_WARNING \<Rightarrow>
     (case NagiosThreshold_init (critical CONFIG) of
        Inl e \<Rightarrow> (Uncaught e, s)
      | Inr THRESHOLD_CRITICAL \<Rightarrow>
     (case is_outside_boundaries THRESHOLD_WARNING CPU_PERCENT of
        Inl e \<Rightarrow> (Uncaught e, s)
      | Inr OUTSIDE_THRESHOLD_WARNING \<Rightarrow>
     (case is_outside_boundaries THRESHOLD_CRITICAL CPU_PERCENT of
        Inl e \<Rightarrow> (Uncaught e, s)
      | Inr OUTSIDE_THRESHOLD_CRITICAL \<Rightarrow>
     (case count of
        None \<Rightarrow>
          (Uncaught (Exc TypeError
             (Percent ''unsupported operand type(s) for *: NoneType and int'' [])), s)
      | Some n \<Rightarrow>
          (let PERFDATA = Percent ''cpu_percentage=%.1f%%;%s..%s;%s..%s;0;%d''
                 [Val CPU_PERCENT,
                  Val (PyFloat (low_boundary THRESHOLD_WARNING)),
                  Val (PyFloat (high_boundary THRESHOLD_WARNING)),
                  Val (PyFloat (low_boundary THRESHOLD_CRITICAL)),
                  Val (PyFloat (high_boundary THRESHOLD_CRITICAL)),
                  Val (PyInt (n * 100))]
           in (case message_and_code CPU_PERCENT PID THRESHOLD_WARNING
                     OUTSIDE_THRESHOLD_WARNING OUTSIDE_THRESHOLD_CRITICAL of
                 (MESSAGE, CODE) \<Rightarrow>
                   (Exit CODE, print (Percent ''%s|%s'' [Str MESSAGE, Str PERFDATA]) s))))))))"

text \<open>The program, from line 320.\<close>

definition main :: "world \<Rightarrow> state \<Rightarrow> outcome \<times> state" where
  "main w s =
     (case argv w of
        BadArguments message \<Rightarrow>
          (Exit 3, print (Percent ''UNKNOWN: Bad arguments (see --help): %s''
             [Val (PyStr message)]) s)
      | Namespace CONFIG \<Rightarrow>
     (case get_pid_from_command (debug CONFIG) (popen w) (pid_cmd CONFIG) s of
        (Raise e, s1) \<Rightarrow> (Uncaught e, s1)
      | (SysExit code, s1) \<Rightarrow> (Exit code, s1)
      | (Return PID, s1) \<Rightarrow>
     (case get_pid_cpu_percent (ps w) (debug CONFIG) PID (buffer_path w PID) s1 of
        (Raise e, s2) \<Rightarrow> (Uncaught e, s2)
      | (SysExit code, s2) \<Rightarrow> (Exit code, s2)
      | (Return CPU_PERCENT, s2) \<Rightarrow>
          report CONFIG (cpu_count (ps w)) PID CPU_PERCENT s2)))"

section \<open>The specification's side\<close>

subsection \<open>The four forms of a threshold\<close>

text \<open>
  The grammar of the specification, written as data: a number is digits, or digits, a
  point and digits; a range is \<^verbatim>\<open>N\<close>, \<^verbatim>\<open>N:\<close>, \<^verbatim>\<open>~:N\<close> or \<^verbatim>\<open>N:M\<close>; the text of
  a threshold is a range, after \<^verbatim>\<open>@\<close> when it is inclusive. The boundaries are the
  specification's: low is 0 when not written and minus infinity when written \<^verbatim>\<open>~\<close>,
  high is plus infinity when not written.
\<close>

definition digits_text :: "string \<Rightarrow> bool" where
  "digits_text d = (d \<noteq> [] \<and> list_all is_digit d)"

datatype number = Whole string | Point string string

fun number_text :: "number \<Rightarrow> string" where
  "number_text (Whole d) = d"
| "number_text (Point d e) = d @ ''.'' @ e"

fun number_ok :: "number \<Rightarrow> bool" where
  "number_ok (Whole d) = digits_text d"
| "number_ok (Point d e) = (digits_text d \<and> digits_text e)"

fun number_value :: "number \<Rightarrow> real" where
  "number_value (Whole d) = real (nat_of_digits d)"
| "number_value (Point d e) = real (nat_of_digits d) + real (nat_of_digits e) / 10 ^ length e"

datatype range_form = UpTo number | AtLeast number | Below number | Between number number

fun form_text :: "range_form \<Rightarrow> string" where
  "form_text (UpTo n) = number_text n"
| "form_text (AtLeast n) = number_text n @ '':''"
| "form_text (Below n) = ''~:'' @ number_text n"
| "form_text (Between n m) = number_text n @ '':'' @ number_text m"

fun form_ok :: "range_form \<Rightarrow> bool" where
  "form_ok (UpTo n) = number_ok n"
| "form_ok (AtLeast n) = number_ok n"
| "form_ok (Below n) = number_ok n"
| "form_ok (Between n m) = (number_ok n \<and> number_ok m)"

fun form_low :: "range_form \<Rightarrow> pyfloat" where
  "form_low (UpTo n) = Fin 0"
| "form_low (AtLeast n) = Fin (number_value n)"
| "form_low (Below n) = NegInf"
| "form_low (Between n m) = Fin (number_value n)"

fun form_high :: "range_form \<Rightarrow> pyfloat" where
  "form_high (UpTo n) = Fin (number_value n)"
| "form_high (AtLeast n) = PosInf"
| "form_high (Below n) = Fin (number_value n)"
| "form_high (Between n m) = Fin (number_value m)"

definition threshold_text :: "bool \<Rightarrow> range_form \<Rightarrow> string" where
  "threshold_text incl f = (if incl then ''@'' else '''') @ form_text f"

subsection \<open>Access to the state file\<close>

text \<open>
  The state file can be written: it exists and is writable, or it can be created. It can
  be written and read back: it exists, writable and readable, or it can be created.
\<close>

definition can_write :: "filesystem \<Rightarrow> string \<Rightarrow> bool" where
  "can_write fs path =
     (case fs path of Missing creatable \<Rightarrow> creatable | File readable writable c \<Rightarrow> writable)"

definition can_write_and_read :: "filesystem \<Rightarrow> string \<Rightarrow> bool" where
  "can_write_and_read fs path =
     (case fs path of
        Missing creatable \<Rightarrow> creatable
      | File readable writable c \<Rightarrow> if readable then writable else False)"

subsection \<open>The percentage of the collaborator\<close>

text \<open>
  The counters the collaborator reads (\<^verbatim>\<open>readCumulativeCpuCounters\<close> of the
  specification).
\<close>

record counters =
  now_timestamp :: real
  now_user :: real
  now_system :: real
  now_children_user :: real
  now_children_system :: real
  now_iowait :: real

fun fin_of :: "pyval \<Rightarrow> real option" where
  "fin_of (PyInt n) = Some (of_int n)"
| "fin_of (PyFloat (Fin r)) = Some r"
| "fin_of v = None"

text \<open>
  Modelled from the spec: \<^verbatim>\<open>psutil.Process.cpu_percent\<close>, the library method that
  computes the percentage, is not in the repository. The specification gives
  \<^verbatim>\<open>percent = 100 * (Duser + Dsystem) / Dtimestamp\<close>, normalized by the collaborator's
  own convention for multi-core scaling, with iowait out of the numerator; the convention
  is the parameter \<open>scale\<close>. With no baseline the figure is a lifetime average the
  specification does not compute: the parameter \<open>lifetime\<close>. The object is left holding
  the counters just read. Python's arithmetic raises on operands that are no numbers and
  on a division by zero.
\<close>

definition spec_cpu_percent ::
  "(real \<Rightarrow> real) \<Rightarrow> pyval \<Rightarrow> counters \<Rightarrow> int \<Rightarrow> process \<Rightarrow> pyexc + (pyval \<times> process)" where
  "spec_cpu_percent scale lifetime now pid' process =
     (let process' = process\<lparr>
            last_sys_cpu_times := PyFloat (Fin (now_timestamp now)),
            last_proc_cpu_times := Some (Pcputimes
              (PyFloat (Fin (now_user now))) (PyFloat (Fin (now_system now)))
              (PyFloat (Fin (now_children_user now))) (PyFloat (Fin (now_children_system now)))
              (PyFloat (Fin (now_iowait now))))\<rparr>
      in case last_proc_cpu_times process of
           None \<Rightarrow> Inr (lifetime, process')
         | Some base \<Rightarrow>
             (case (fin_of (last_sys_cpu_times process), fin_of (pt_user base),
                    fin_of (pt_system base)) of
                (Some t0, Some u0, Some s0) \<Rightarrow>
                  if now_timestamp now = t0 then
                    Inl (Exc ZeroDivisionError (Percent ''float division by zero'' []))
                  else
                    Inr (PyFloat (Fin (scale (100 * ((now_user now - u0) + (now_system now - s0))
                                               / (now_timestamp now - t0)))), process')
              | _ \<Rightarrow>
                  Inl (Exc TypeError (Percent ''unsupported operand type(s) for -'' []))))"

subsection \<open>A run of the probe\<close>

text \<open>
  The scenario of the specification: process 42, the counters user 10, system 5, iowait 1
  at time 100 in the state file, and user 14, system 6, iowait 3 read ten seconds later.
\<close>

definition example_path :: string where
  "example_path = ''/tmp/check_process_cpu_usage.py_pid_42.json''"

definition example_previous :: CpuTimesNamedTuple where
  "example_previous =
     \<lparr>pid = PyInt 42, timestamp = PyFloat (Fin 100), user = PyFloat (Fin 10),
      system = PyFloat (Fin 5), children_user = PyFloat (Fin 1),
      children_system = PyFloat (Fin 2), iowait = PyFloat (Fin 1)\<rparr>"

definition example_now :: counters where
  "example_now =
     \<lparr>now_timestamp = 110, now_user = 14, now_system = 6, now_children_user = 1,
      now_children_system = 2, now_iowait = 3\<rparr>"

definition example_parsed :: CpuTimesNamedTuple where
  "example_parsed =
     \<lparr>pid = PyInt 42, timestamp = PyFloat (Fin 110), user = PyFloat (Fin 14),
      system = PyFloat (Fin 6), children_user = PyFloat (Fin 1),
      children_system = PyFloat (Fin 2), iowait = PyFloat (Fin 3)\<rparr>"

definition example_psutil :: psutil where
  "example_psutil =
     \<lparr>Process_init = (\<lambda>p. None), is_running = (\<lambda>p. True),
      cpu_percent = spec_cpu_percent (\<lambda>x. x) (PyFloat (Fin 0)) example_now,
      cpu_count = Some 4\<rparr>"

definition state_with :: "slot \<Rightarrow> state" where
  "state_with f = \<lparr>stdout = [], files = (\<lambda>p. if p = example_path then f else Missing True)\<rparr>"

definition example_world :: "string \<Rightarrow> string \<Rightarrow> world" where
  "example_world w c =
     \<lparr>argv = Namespace \<lparr>warning = w, critical = c, pid_cmd = ''echo 42'', debug = False\<rparr>,
      popen = (\<lambda>cmd. (0, ''42'' @ [CHR 0x0A], '''')),
      ps = example_psutil,
      buffer_path = (\<lambda>p. example_path)\<rparr>"

subsection \<open>What a state file holds\<close>

text \<open>
  The JSON object of a slot: the file exists, can be read and holds an object. Every
  other slot has none.
\<close>

fun stored_object :: "slot \<Rightarrow> (string \<times> pyval) list option" where
  "stored_object (File readable writable (Doc (PyDict kw))) = (if readable then Some kw else None)"
| "stored_object f = None"

text \<open>A state file whose \<^verbatim>\<open>pid\<close> is a string, the other fields as in the scenario.\<close>

definition mistyped_previous :: CpuTimesNamedTuple where
  "mistyped_previous = example_previous\<lparr>pid := PyStr ''42''\<rparr>"

definition stored :: "CpuTimesNamedTuple \<Rightarrow> slot" where
  "stored x = File True True (Doc (PyDict (asdict x)))"

subsection \<open>The errors of a state that is not ready\<close>

text \<open>
  One of the three errors the sampler raises after the save, told by its class and the
  format of its message.
\<close>

fun degraded_error :: "pyexc \<Rightarrow> bool" where
  "degraded_error (Exc c (Percent t args)) =
     (c = RuntimeError \<and>
      t \<in> set [''First run, creating buffers at %s: %s: %s'',
                ''Buffer file at %s was corrupted: %s: %s'',
                ''Process pid has changed from %d to %s''])"

section \<open>The threshold: parsing and evaluation\<close>

lemma not_digit_simps [simp]:
  "\<not> is_digit CHR '':''" "\<not> is_digit CHR ''.''" "\<not> is_digit CHR ''~''" "\<not> is_digit CHR ''@''"
  by (simp_all add: is_digit_def)

lemma rx_digits_head:
  assumes "digits_text d" and "r = [] \<or> \<not> is_digit (hd r)"
  shows "\<exists>t. rx_digits (d @ r) = (d, r) # t"
proof -
  have all: "\<forall>c\<in>set d. is_digit c" and ne: "d \<noteq> []"
    using assms(1) by (auto simp: digits_text_def list_all_iff)
  have tw: "takeWhile is_digit (d @ r) = d"
  proof (cases r)
    case Nil
    then show ?thesis using all by simp
  next
    case (Cons c r')
    then have "\<not> is_digit c" using assms(2) by simp
    then show ?thesis using all Cons by (simp add: takeWhile_tail)
  qed
  obtain k where k: "length d = Suc k" using ne by (cases d) auto
  have "rev [1 ..< Suc (length d)] = length d # rev [1 ..< length d]"
    using k by simp
  then show ?thesis
    by (simp add: rx_digits_def tw)
qed

lemma rx_digits_none: "s = [] \<or> \<not> is_digit (hd s) \<Longrightarrow> rx_digits s = []"
  by (cases s) (auto simp: rx_digits_def)

lemma rx_number_head:
  assumes "number_ok n" and "r = [] \<or> hd r = CHR '':''"
  shows "\<exists>t. rx_number (number_text n @ r) = (number_text n, r) # t"
proof (cases n)
  case (Whole d)
  have nd: "r = [] \<or> \<not> is_digit (hd r)" using assms(2) by auto
  obtain t where t: "rx_digits (d @ r) = (d, r) # t"
    using rx_digits_head [of d r] assms(1) Whole nd by auto
  have "(case r of [] \<Rightarrow> [] | c # r' \<Rightarrow>
            if c = CHR ''.'' then map (\<lambda>(d2, r''). (d @ ''.'' @ d2, r'')) (rx_digits r')
            else []) = []"
    using assms(2) by (cases r) auto
  then show ?thesis using t Whole by (simp add: rx_number_def)
next
  case (Point d e)
  have de: "digits_text d" "digits_text e" using assms(1) Point by auto
  have nd: "r = [] \<or> \<not> is_digit (hd r)" using assms(2) by auto
  obtain t where t: "rx_digits (d @ (CHR ''.'' # e @ r)) = (d, CHR ''.'' # e @ r) # t"
    using rx_digits_head [of d "CHR ''.'' # e @ r"] de(1) by auto
  obtain u where u: "rx_digits (e @ r) = (e, r) # u"
    using rx_digits_head [of e r] de(2) nd by auto
  show ?thesis using t u Point by (simp add: rx_number_def)
qed

lemma rx_digits_rest: "(x, r) \<in> set (rx_digits s) \<Longrightarrow> set r \<subseteq> set s"
  by (auto simp: rx_digits_def dest: in_set_dropD)

lemma rx_number_rest: "(x, r) \<in> set (rx_number s) \<Longrightarrow> set r \<subseteq> set s"
  by (fastforce simp: rx_number_def split: list.splits if_splits dest: rx_digits_rest)

lemma rx_low_rest: "(x, r) \<in> set (rx_low s) \<Longrightarrow> set r \<subseteq> set s"
  by (auto simp: rx_low_def split: list.splits if_splits dest: rx_number_rest)

lemma rx_colon_none: "CHR '':'' \<notin> set r \<Longrightarrow> rx_colon (l, r) = []"
  by (cases r) (auto simp: rx_colon_def)

lemma rx_colon_group_none:
  assumes "CHR '':'' \<notin> set s"
  shows "rx_colon_group s = [(None, s)]"
proof -
  have "\<forall>m \<in> set (map (\<lambda>(l, r). (Some l, r)) (rx_low s) @ [(None, s)]). rx_colon m = []"
    using assms by (auto dest!: rx_low_rest intro!: rx_colon_none)
  then have "concat (map rx_colon (map (\<lambda>(l, r). (Some l, r)) (rx_low s) @ [(None, s)])) = []"
    by simp
  then show ?thesis by (simp add: rx_colon_group_def)
qed

lemma digits_text_no_colon: "digits_text d \<Longrightarrow> CHR '':'' \<notin> set d"
  by (auto simp: digits_text_def list_all_iff)

lemma number_text_no_colon: "number_ok n \<Longrightarrow> CHR '':'' \<notin> set (number_text n)"
  by (cases n) (auto dest: digits_text_no_colon)

lemma rx_colon_group_number:
  assumes "number_ok n"
  shows "\<exists>t. rx_colon_group (number_text n @ CHR '':'' # r) = (Some (number_text n), r) # t"
proof -
  obtain t where "rx_number (number_text n @ CHR '':'' # r) = (number_text n, CHR '':'' # r) # t"
    using rx_number_head [OF assms, of "CHR '':'' # r"] by auto
  then show ?thesis by (simp add: rx_colon_group_def rx_low_def rx_colon_def)
qed

lemma rx_colon_group_tilde:
  "\<exists>t. rx_colon_group (CHR ''~'' # CHR '':'' # r) = (Some ''~'', r) # t"
  by (simp add: rx_colon_group_def rx_low_def rx_colon_def rx_number_def rx_digits_none)

lemma rx_high_number:
  assumes "number_ok n"
  shows "\<exists>t. rx_high (number_text n) = (Some (number_text n), []) # t"
proof -
  obtain t where "rx_number (number_text n @ []) = (number_text n, []) # t"
    using rx_number_head [OF assms, of "[]"] by auto
  then show ?thesis by (simp add: rx_high_def)
qed

lemma rx_high_empty: "rx_high [] = [(None, [])]"
  by (simp add: rx_high_def rx_number_def rx_digits_def)

lemma re_match_first:
  assumes "rx_inclusive raw = (i, r1) # t1" and "rx_colon_group r1 = (l, r2) # t2"
    and "rx_high r2 = (h, r3) # t3"
  shows "re_match raw = Some (i, l, h)"
  using assms by (simp add: re_match_def rx_threshold_def)

lemma digits_text_first: "digits_text d \<Longrightarrow> \<exists>c r. d = c # r \<and> is_digit c"
  by (cases d) (auto simp: digits_text_def)

lemma number_text_first: "number_ok n \<Longrightarrow> \<exists>c r. number_text n = c # r \<and> is_digit c"
  by (cases n) (auto dest: digits_text_first)

lemma rx_inclusive_at: "rx_inclusive (CHR ''@'' # s) = [(''@'', s), ('''', CHR ''@'' # s)]"
  by (simp add: rx_inclusive_def)

lemma rx_inclusive_plain: "s = [] \<or> hd s \<noteq> CHR ''@'' \<Longrightarrow> rx_inclusive s = [('''', s)]"
  by (cases s) (auto simp: rx_inclusive_def)

lemma form_text_first: "form_ok f \<Longrightarrow> form_text f = [] \<or> hd (form_text f) \<noteq> CHR ''@''"
proof (cases f)
  case (Below n)
  then show ?thesis by simp
qed (auto dest: number_text_first)

lemma rx_inclusive_form:
  assumes "form_ok f"
  shows "\<exists>t. rx_inclusive (threshold_text incl f) = ((if incl then ''@'' else ''''), form_text f) # t"
  using form_text_first [OF assms]
  by (simp add: threshold_text_def rx_inclusive_at rx_inclusive_plain)

lemma rx_groups_form:
  assumes "form_ok f"
  shows "\<exists>l h r2 t2 t3.
     rx_colon_group (form_text f) = (l, r2) # t2 \<and> rx_high r2 = (h, []) # t3 \<and>
     (case f of UpTo n \<Rightarrow> l = None \<and> h = Some (number_text n)
      | AtLeast n \<Rightarrow> l = Some (number_text n) \<and> h = None
      | Below n \<Rightarrow> l = Some ''~'' \<and> h = Some (number_text n)
      | Between n m \<Rightarrow> l = Some (number_text n) \<and> h = Some (number_text m))"
proof (cases f)
  case (UpTo n)
  then have ok: "number_ok n" using assms by simp
  show ?thesis
    using rx_colon_group_none [OF number_text_no_colon [OF ok]] rx_high_number [OF ok] UpTo
    by auto
next
  case (AtLeast n)
  then have ok: "number_ok n" using assms by simp
  show ?thesis
    using rx_colon_group_number [OF ok, of "[]"] rx_high_empty AtLeast by auto
next
  case (Below n)
  then have ok: "number_ok n" using assms by simp
  show ?thesis
    using rx_colon_group_tilde [of "number_text n"] rx_high_number [OF ok] Below by auto
next
  case (Between n m)
  then have ok: "number_ok n" "number_ok m" using assms by simp_all
  show ?thesis
    using rx_colon_group_number [OF ok(1), of "number_text m"] rx_high_number [OF ok(2)] Between
    by auto
qed

lemma py_float_number:
  assumes "number_ok n"
  shows "py_float (number_text n) = Inr (Fin (number_value n))"
proof (cases n)
  case (Whole d)
  then have d: "digits_text d" using assms by simp
  have tw: "takeWhile is_digit d = d" and dw: "dropWhile is_digit d = []" and ne: "d \<noteq> []"
    using d by (auto simp: digits_text_def list_all_iff)
  show ?thesis
    unfolding Whole number_text.simps number_value.simps py_float_def Let_def tw dw
    using ne by simp
next
  case (Point d e)
  then have d: "digits_text d" and e: "digits_text e" using assms by simp_all
  have all: "\<forall>c\<in>set d. is_digit c" using d by (simp add: digits_text_def list_all_iff)
  have tw: "takeWhile is_digit (d @ ''.'' @ e) = d"
    using all by (simp add: takeWhile_tail)
  have dw: "dropWhile is_digit (d @ ''.'' @ e) = CHR ''.'' # e"
    using all by (simp add: dropWhile_append3)
  have ne: "d \<noteq> []" "e \<noteq> []" "list_all is_digit e"
    using d e by (auto simp: digits_text_def)
  show ?thesis
    unfolding Point number_text.simps number_value.simps py_float_def Let_def tw dw
    using ne by simp
qed

lemma number_text_not_tilde: "number_ok n \<Longrightarrow> number_text n \<noteq> ''~''"
  by (auto dest!: number_text_first)

lemma NagiosThreshold_init_form:
  assumes "form_ok f"
  shows "NagiosThreshold_init (threshold_text incl f) =
     Inr \<lparr>inclusive = incl, low_boundary = form_low f, high_boundary = form_high f\<rparr>"
proof -
  obtain t1 where i: "rx_inclusive (threshold_text incl f) = ((if incl then ''@'' else ''''), form_text f) # t1"
    using rx_inclusive_form [OF assms] by blast
  obtain l h r2 t2 t3 where g: "rx_colon_group (form_text f) = (l, r2) # t2" "rx_high r2 = (h, []) # t3"
    and lh: "(case f of UpTo n \<Rightarrow> l = None \<and> h = Some (number_text n)
      | AtLeast n \<Rightarrow> l = Some (number_text n) \<and> h = None
      | Below n \<Rightarrow> l = Some ''~'' \<and> h = Some (number_text n)
      | Between n m \<Rightarrow> l = Some (number_text n) \<and> h = Some (number_text m))"
    using rx_groups_form [OF assms] by blast
  have m: "re_match (threshold_text incl f) = Some ((if incl then ''@'' else ''''), l, h)"
    by (rule re_match_first [OF i g])
  have ne: "threshold_text incl f \<noteq> []"
    using assms by (cases f) (auto simp: threshold_text_def dest: number_text_first)
  have lo: "(case l of None \<Rightarrow> Inr (Fin 0)
             | Some l \<Rightarrow> if l = ''~'' then Inr NegInf else py_float l) = Inr (form_low f)"
    using assms lh by (cases f) (auto simp: py_float_number number_text_not_tilde)
  have hi: "(case h of None \<Rightarrow> Inr PosInf | Some h \<Rightarrow> py_float h) = Inr (form_high f)"
    using assms lh by (cases f) (auto simp: py_float_number)
  show ?thesis
    by (simp add: NagiosThreshold_init_def m ne bindE_def lo hi)
qed


text \<open>
  C2. A threshold text of one of the four forms, with or without \<^verbatim>\<open>@\<close>, is parsed to
  the boundaries of the specification, and a numeric value is then tested as the
  specification says: inclusive, the text \<^verbatim>\<open>v<low\<close> exactly when \<open>v < low\<close>, else
  \<^verbatim>\<open>v>high\<close> exactly when \<open>v > high\<close>; not inclusive, the same with \<open>\<le>\<close> and \<open>\<ge>\<close>;
  otherwise no violation.
\<close>

theorem threshold_forms_evaluation:
  assumes "form_ok f" and "num_of v = Some x"
  shows "\<exists>t. NagiosThreshold_init (threshold_text incl f) = Inr t \<and>
     inclusive t = incl \<and> low_boundary t = form_low f \<and> high_boundary t = form_high f \<and>
     is_outside_boundaries t v = Inr
       (if incl then
          (if float_lt x (form_low f) then
             Some (Percent ''%s<%s'' [Val v, Val (PyFloat (form_low f))])
           else if float_lt (form_high f) x then
             Some (Percent ''%s>%s'' [Val v, Val (PyFloat (form_high f))])
           else None)
        else
          (if float_le x (form_low f) then
             Some (Percent ''%s<=%s'' [Val v, Val (PyFloat (form_low f))])
           else if float_le (form_high f) x then
             Some (Percent ''%s>=%s'' [Val v, Val (PyFloat (form_high f))])
           else None))"
  using assms by (simp add: NagiosThreshold_init_form is_outside_boundaries_def)

theorem threshold_forms_evaluation_witness:
  "form_ok (Between (Whole ''10'') (Whole ''20'')) \<and>
   num_of (PyFloat (Fin 20)) = Some (Fin 20) \<and>
   (\<exists>t. NagiosThreshold_init ''@10:20'' = Inr t \<and> inclusive t \<and>
      low_boundary t = Fin 10 \<and> high_boundary t = Fin 20 \<and>
      is_outside_boundaries t (PyFloat (Fin 20)) = Inr None) \<and>
   (\<exists>t. NagiosThreshold_init ''10:20'' = Inr t \<and> \<not> inclusive t \<and>
      is_outside_boundaries t (PyFloat (Fin 20)) =
        Inr (Some (Percent ''%s>=%s'' [Val (PyFloat (Fin 20)), Val (PyFloat (Fin 20))])))"
proof -
  have ok: "form_ok (Between (Whole ''10'') (Whole ''20''))"
    by (simp add: digits_text_def is_digit_def)
  have num: "num_of (PyFloat (Fin 20)) = Some (Fin 20)" by simp
  show ?thesis
    using ok num threshold_forms_evaluation [OF ok num, of True]
      threshold_forms_evaluation [OF ok num, of False]
    by (auto simp: threshold_text_def nat_of_digits_def digit_val_def float_le_def)
qed

lemma rx_digits_digits: "(x, r) \<in> set (rx_digits s) \<Longrightarrow> digits_text x"
proof -
  assume "(x, r) \<in> set (rx_digits s)"
  then obtain n where n: "1 \<le> n" "n \<le> length (takeWhile is_digit s)" and x: "x = take n s"
    by (auto simp: rx_digits_def)
  have "take n s = take n (takeWhile is_digit s @ dropWhile is_digit s)" by simp
  also have "\<dots> = take n (takeWhile is_digit s)" using n(2) by (simp del: takeWhile_dropWhile_id)
  finally have t: "x = take n (takeWhile is_digit s)" using x by simp
  have "set x \<subseteq> set (takeWhile is_digit s)" unfolding t by (rule set_take_subset)
  then have "\<forall>c\<in>set x. is_digit c" by (auto dest: set_takeWhileD)
  moreover have "x \<noteq> []" using n t by (cases "takeWhile is_digit s") auto
  ultimately show ?thesis by (simp add: digits_text_def list_all_iff)
qed

lemma rx_number_number:
  "(x, r) \<in> set (rx_number s) \<Longrightarrow> \<exists>n. number_ok n \<and> x = number_text n"
proof -
  assume "(x, r) \<in> set (rx_number s)"
  then obtain d1 r1 where d1: "(d1, r1) \<in> set (rx_digits s)"
    and alt: "(x, r) = (d1, r1) \<or>
      (\<exists>r' d2. r1 = CHR ''.'' # r' \<and> (d2, r) \<in> set (rx_digits r') \<and> x = d1 @ ''.'' @ d2)"
    by (auto simp: rx_number_def split: list.splits if_splits)
  from alt show ?thesis
  proof
    assume "(x, r) = (d1, r1)"
    then have "number_ok (Whole x) \<and> x = number_text (Whole x)"
      using rx_digits_digits [OF d1] by simp
    then show ?thesis by blast
  next
    assume "\<exists>r' d2. r1 = CHR ''.'' # r' \<and> (d2, r) \<in> set (rx_digits r') \<and> x = d1 @ ''.'' @ d2"
    then obtain r' d2 where "(d2, r) \<in> set (rx_digits r')" "x = d1 @ ''.'' @ d2" by blast
    then have "number_ok (Point d1 d2) \<and> x = number_text (Point d1 d2)"
      using rx_digits_digits [OF d1] rx_digits_digits [of d2 r r'] by simp
    then show ?thesis by blast
  qed
qed

lemma rx_high_float:
  "(h, r) \<in> set (rx_high s) \<Longrightarrow>
     \<exists>v. (case h of None \<Rightarrow> Inr PosInf | Some t \<Rightarrow> py_float t) = Inr v"
  by (auto simp: rx_high_def py_float_number dest!: rx_number_number)

lemma rx_colon_group_float:
  "(l, r) \<in> set (rx_colon_group s) \<Longrightarrow>
     \<exists>v. (case l of None \<Rightarrow> Inr (Fin 0)
               | Some t \<Rightarrow> if t = ''~'' then Inr NegInf else py_float t) = Inr v"
  by (auto simp: rx_colon_group_def rx_colon_def rx_low_def py_float_number
      split: list.splits if_splits dest!: rx_number_number)

lemma rx_threshold_last: "rx_threshold raw \<noteq> []"
  by (simp add: rx_threshold_def rx_inclusive_def rx_colon_group_def rx_high_def)

lemma rx_threshold_float:
  assumes "(i, l, h) \<in> set (rx_threshold raw)"
  shows "\<exists>lo hi.
     (case l of None \<Rightarrow> Inr (Fin 0)
      | Some t \<Rightarrow> if t = ''~'' then Inr NegInf else py_float t) = Inr lo \<and>
     (case h of None \<Rightarrow> Inr PosInf | Some t \<Rightarrow> py_float t) = Inr hi"
proof -
  obtain r1 r2 r3 where "(l, r2) \<in> set (rx_colon_group r1)" "(h, r3) \<in> set (rx_high r2)"
    using assms by (auto simp: rx_threshold_def)
  then show ?thesis
    using rx_colon_group_float rx_high_float by blast
qed

text \<open>
  Every text but the empty one is accepted: the pattern always matches, and what its
  groups capture is always a number \<^verbatim>\<open>float\<close> reads.
\<close>

lemma NagiosThreshold_init_accepts:
  assumes "raw \<noteq> []"
  shows "\<exists>t. NagiosThreshold_init raw = Inr t"
proof -
  obtain i l h ms where m: "rx_threshold raw = (i, l, h) # ms"
    using rx_threshold_last [of raw] by (cases "rx_threshold raw") auto
  then have "(i, l, h) \<in> set (rx_threshold raw)" by simp
  then obtain lo hi where
    "(case l of None \<Rightarrow> Inr (Fin 0)
      | Some t \<Rightarrow> if t = ''~'' then Inr NegInf else py_float t) = Inr lo"
    "(case h of None \<Rightarrow> Inr PosInf | Some t \<Rightarrow> py_float t) = Inr hi"
    using rx_threshold_float by blast
  then show ?thesis
    using assms by (simp add: NagiosThreshold_init_def re_match_def m bindE_def)
qed

text \<open>
  C4. The pattern has no end anchor and every part of it is optional, so it matches at
  the start of any text: \<^verbatim>\<open>abc\<close> is accepted, with the default boundaries.
\<close>

theorem abc_is_accepted:
  "NagiosThreshold_init ''abc'' =
     Inr \<lparr>inclusive = False, low_boundary = Fin 0, high_boundary = PosInf\<rparr>"
  by (simp add: NagiosThreshold_init_def re_match_def rx_threshold_def rx_inclusive_def
      rx_colon_group_def rx_low_def rx_number_def rx_digits_def rx_high_def rx_colon_def
      is_digit_def bindE_def)

section \<open>The state file\<close>

lemma cls_kwargs_asdict: "cls_kwargs (PyDict (asdict x)) = Inr x"
  by (simp add: cls_kwargs_def asdict_def field_names_def kwarg_def bindE_def)

lemma kwarg_Inr: "k \<in> fst ` set kw \<Longrightarrow> \<exists>v. kwarg kw k = Inr v \<and> map_of kw k = Some v"
  by (cases "map_of kw k") (auto simp: kwarg_def map_of_eq_None_iff)

lemma cls_kwargs_keys:
  assumes "set (map fst kw) = set field_names"
  shows "\<exists>x. cls_kwargs (PyDict kw) = Inr x \<and> map_of kw ''pid'' = Some (pid x)"
proof -
  have sub: "list_all (\<lambda>k. k \<in> set field_names) (map fst kw)"
    using assms by (simp add: list_all_iff)
  have mem: "\<And>k. k \<in> set field_names \<Longrightarrow> k \<in> fst ` set kw"
    using assms by auto
  obtain a1 where a1: "kwarg kw ''pid'' = Inr a1" "map_of kw ''pid'' = Some a1"
    using kwarg_Inr [OF mem, of "''pid''"] by (auto simp: field_names_def)
  obtain a2 where a2: "kwarg kw ''timestamp'' = Inr a2"
    using kwarg_Inr [OF mem, of "''timestamp''"] by (auto simp: field_names_def)
  obtain a3 where a3: "kwarg kw ''user'' = Inr a3"
    using kwarg_Inr [OF mem, of "''user''"] by (auto simp: field_names_def)
  obtain a4 where a4: "kwarg kw ''system'' = Inr a4"
    using kwarg_Inr [OF mem, of "''system''"] by (auto simp: field_names_def)
  obtain a5 where a5: "kwarg kw ''children_user'' = Inr a5"
    using kwarg_Inr [OF mem, of "''children_user''"] by (auto simp: field_names_def)
  obtain a6 where a6: "kwarg kw ''children_system'' = Inr a6"
    using kwarg_Inr [OF mem, of "''children_system''"] by (auto simp: field_names_def)
  obtain a7 where a7: "kwarg kw ''iowait'' = Inr a7"
    using kwarg_Inr [OF mem, of "''iowait''"] by (auto simp: field_names_def)
  show ?thesis
    using sub by (simp add: cls_kwargs_def bindE_def a1 a2 a3 a4 a5 a6 a7)
qed

lemma cls_kwargs_not_keys:
  assumes "set (map fst kw) \<noteq> set field_names"
  shows "\<exists>e. cls_kwargs (PyDict kw) = Inl e \<and> exc_class_of e = TypeError"
proof (cases "list_all (\<lambda>k. k \<in> set field_names) (map fst kw)")
  case False
  then show ?thesis by (simp add: cls_kwargs_def)
next
  case True
  then have "set (map fst kw) \<subseteq> set field_names" by (auto simp: list_all_iff)
  then obtain k where k: "k \<in> set field_names" "k \<notin> fst ` set kw"
    using assms by auto
  then have none: "map_of kw k = None" by (simp add: map_of_eq_None_iff)
  show ?thesis
    using True k(1) none
    by (auto simp: cls_kwargs_def field_names_def bindE_def kwarg_def split: option.splits)
qed

lemma cls_kwargs_not_dict:
  "(\<And>kw. data \<noteq> PyDict kw) \<Longrightarrow> \<exists>e. cls_kwargs data = Inl e \<and> exc_class_of e = TypeError"
  by (cases data) (auto simp: cls_kwargs_def)

lemma load_from_disk_object:
  "load_from_disk path fs =
     (case fs path of
        Missing c \<Rightarrow> Inl (Exc FileNotFoundError
            (Percent ''[Errno 2] No such file or directory: %r'' [Val (PyStr path)]))
      | File r w d \<Rightarrow>
          if r then bindE (json_load d) cls_kwargs
          else Inl (Exc PermissionError
            (Percent ''[Errno 13] Permission denied: %r'' [Val (PyStr path)])))"
  by (simp add: load_from_disk_def open_read_def bindE_def split: slot.splits)

lemma stored_object_None:
  assumes "stored_object f = None" and "f = File r w d"
  shows "\<exists>e. (if r then bindE (json_load d) cls_kwargs
               else Inl (Exc PermissionError
                 (Percent ''[Errno 13] Permission denied: %r'' [Val (PyStr path)]))) = Inl e \<and>
             exc_class_of e \<noteq> FileNotFoundError"
proof (cases r)
  case False
  then show ?thesis by simp
next
  case True
  show ?thesis
  proof (cases d)
    case Garbage
    then show ?thesis using True by (simp add: json_load_def bindE_def)
  next
    case (Doc v)
    have "\<And>kw. v \<noteq> PyDict kw" using assms True Doc by auto
    then obtain e where "cls_kwargs v = Inl e" "exc_class_of e = TypeError"
      using cls_kwargs_not_dict [of v] by blast
    then show ?thesis using True Doc by (simp add: json_load_def bindE_def)
  qed
qed

lemma stored_object_Some:
  "stored_object f = Some kw \<Longrightarrow> \<exists>w. f = File True w (Doc (PyDict kw))"
  by (induction f rule: stored_object.induct) (auto split: if_splits)

text \<open>
  C10, as amended. The load step makes the missing flag of a missing file and of nothing
  else. It makes the error flag of every other failure of the load: a file that cannot
  be read, a text that is no JSON, a JSON value that is no object, an object whose keys
  are not exactly the seven field names. An object with exactly the seven keys loads,
  whatever its values are, and the changed flag is the comparison of its \<^verbatim>\<open>pid\<close> value
  with the requested pid.
\<close>

theorem load_previous_classification:
  "has_load_missing (load_previous pid' path fs) = (\<exists>c. fs path = Missing c) \<and>
   has_load_error (load_previous pid' path fs) =
     ((\<forall>c. fs path \<noteq> Missing c) \<and>
      (case stored_object (fs path) of
         None \<Rightarrow> True
       | Some kw \<Rightarrow> set (map fst kw) \<noteq> set field_names)) \<and>
   has_pid_changed (load_previous pid' path fs) =
     (case stored_object (fs path) of
        None \<Rightarrow> False
      | Some kw \<Rightarrow>
          set (map fst kw) = set field_names \<and>
          (case map_of kw ''pid'' of None \<Rightarrow> False | Some v \<Rightarrow> py_ne_int v pid'))"
proof (cases "fs path")
  case (Missing c)
  then show ?thesis
    by (simp add: load_previous_def load_from_disk_object)
next
  case (File r w d)
  show ?thesis
  proof (cases "stored_object (fs path)")
    case None
    obtain e where "load_from_disk path fs = Inl e" "exc_class_of e \<noteq> FileNotFoundError"
      using stored_object_None [of "fs path" r w d path] None File
      by (auto simp: load_from_disk_object)
    then show ?thesis using None File by (simp add: load_previous_def)
  next
    case (Some kw)
    then have f: "r" "d = Doc (PyDict kw)"
      using stored_object_Some [OF Some] File by auto
    have l: "load_from_disk path fs = cls_kwargs (PyDict kw)"
      using File f by (simp add: load_from_disk_object json_load_def bindE_def)
    show ?thesis
    proof (cases "set (map fst kw) = set field_names")
      case True
      obtain x where "cls_kwargs (PyDict kw) = Inr x" "map_of kw ''pid'' = Some (pid x)"
        using cls_kwargs_keys [OF True] by blast
      then show ?thesis using Some File True l by (simp add: load_previous_def)
    next
      case False
      obtain e where "cls_kwargs (PyDict kw) = Inl e" "exc_class_of e = TypeError"
        using cls_kwargs_not_keys [OF False] by blast
      then show ?thesis using Some File False l by (simp add: load_previous_def)
    qed
  qed
qed

theorem mistyped_pid_is_pid_changed:
  "\<not> has_load_error (load_previous 42 example_path (files (state_with (stored mistyped_previous)))) \<and>
   \<not> has_load_missing (load_previous 42 example_path (files (state_with (stored mistyped_previous)))) \<and>
   has_pid_changed (load_previous 42 example_path (files (state_with (stored mistyped_previous))))"
  by (simp add: load_previous_def load_from_disk_object state_with_def stored_def json_load_def
      bindE_def cls_kwargs_asdict mistyped_previous_def example_previous_def)

lemma write_json_can_write:
  "can_write fs path \<Longrightarrow>
     \<exists>r w. write_json fs path data = Inr (fs(path := File r w (Doc data))) \<and>
       (r \<or> (\<exists>c. fs path = File False w c))"
  by (cases "fs path") (auto simp: can_write_def write_json_def)

lemma write_json_can_write_and_read:
  "can_write_and_read fs path \<Longrightarrow>
     \<exists>w. write_json fs path data = Inr (fs(path := File True w (Doc data)))"
  by (cases "fs path") (auto simp: can_write_and_read_def write_json_def split: if_splits)

lemma write_json_cannot:
  "\<not> can_write fs path \<Longrightarrow>
     write_json fs path data =
       Inl (Exc PermissionError (Percent ''[Errno 13] Permission denied: %r'' [Val (PyStr path)]))"
  by (cases "fs path") (auto simp: can_write_def write_json_def)

lemma save_to_disk_eq:
  "save_to_disk DEBUG x path s =
     (case write_json (files s) path (PyDict (asdict x)) of
        Inr fs' \<Rightarrow> (Return (), s\<lparr>files := fs'\<rparr>)
      | Inl e \<Rightarrow>
          (if DEBUG then Raise e else SysExit 3,
           print (Percent ''UNKNOWN: Got exception while running %s: %s: %s''
             [Val (PyStr ''save_to_disk''), Val (PyStr (class_name (exc_class_of e))),
              Str (case e of Exc c m \<Rightarrow> m)]) s))"
  by (simp add: save_to_disk_def tb2unknown_def Let_def split: sum.splits)

lemma load_after_write:
  "load_from_disk path (fs(path := File True w (Doc (PyDict (asdict x))))) = Inr x"
  by (simp add: load_from_disk_object json_load_def bindE_def cls_kwargs_asdict)

text \<open>
  C8. Where the state file can be written and read back, saving a tuple returns, and
  loading from the same path then returns the tuple saved, equal in all seven fields.
\<close>

theorem save_then_load:
  assumes "can_write_and_read (files s) path"
  shows "\<exists>s'. save_to_disk DEBUG x path s = (Return (), s') \<and>
           load_from_disk path (files s') = Inr x"
proof -
  obtain w where
    "write_json (files s) path (PyDict (asdict x)) =
       Inr ((files s)(path := File True w (Doc (PyDict (asdict x)))))"
    using write_json_can_write_and_read [OF assms] by blast
  then show ?thesis
    by (simp add: save_to_disk_eq load_after_write)
qed

theorem save_then_load_witness:
  "can_write_and_read (files (state_with (Missing True))) example_path \<and>
   (\<exists>s'. save_to_disk False example_previous example_path (state_with (Missing True)) =
            (Return (), s') \<and>
          load_from_disk example_path (files s') = Inr example_previous)"
proof -
  have h: "can_write_and_read (files (state_with (Missing True))) example_path"
    by (simp add: can_write_and_read_def state_with_def)
  show ?thesis
    using h save_then_load [OF h, of False example_previous] by simp
qed

section \<open>The sampler\<close>

text \<open>
  C6. With the state file of the scenario (children\_user 1, children\_system 2) and the
  same pid, the baseline put into the \<^verbatim>\<open>Process\<close> object has children\_system 1: it
  is the previous children\_user.
\<close>

theorem baseline_children_system:
  "children_system example_previous = PyFloat (Fin 2) \<and>
   reload_previous (load_previous 42 example_path (files (state_with (stored example_previous))))
       new_process =
     \<lparr>last_sys_cpu_times = PyFloat (Fin 100),
      last_proc_cpu_times = Some (Pcputimes (PyFloat (Fin 10)) (PyFloat (Fin 5))
        (PyFloat (Fin 1)) (PyFloat (Fin 1)) (PyFloat (Fin 1)))\<rparr>"
  by (simp add: reload_previous_def load_previous_def load_from_disk_object state_with_def
      stored_def json_load_def bindE_def cls_kwargs_asdict example_previous_def new_process_def)

lemma body_after_counters:
  assumes "Process_init lib pid' = None" and "is_running lib pid'"
    and "cpu_percent lib pid' (reload_previous (load_previous pid' path (files s)) new_process) =
           Inr (cpu, process')"
    and "parse_process pid' process' = Inr parsed"
  shows "get_pid_cpu_percent_body lib DEBUG pid' path s =
     (case write_json (files s) path (PyDict (asdict parsed)) of
        Inr fs' \<Rightarrow>
          (raise_or_return (load_previous pid' path (files s)) path pid' cpu, s\<lparr>files := fs'\<rparr>)
      | Inl e \<Rightarrow>
          (if DEBUG then Raise e else SysExit 3,
           print (Percent ''UNKNOWN: Got exception while running %s: %s: %s''
             [Val (PyStr ''save_to_disk''), Val (PyStr (class_name (exc_class_of e))),
              Str (case e of Exc c m \<Rightarrow> m)]) s))"
  using assms
  by (simp add: get_pid_cpu_percent_body_def Let_def save_to_disk_eq split: sum.splits)

lemma degraded_not_permission:
  "\<not> degraded_error (Exc PermissionError m)"
  by (cases m) simp

lemma parse_process_pid: "parse_process pid' process' = Inr parsed \<Longrightarrow> pid parsed = PyInt pid'"
  by (auto simp: parse_process_def split: option.splits)

text \<open>
  C1. In a run where the process exists and runs and the collaborator returns the
  percentage and leaves its counters in the object, one of the three errors of a state
  that is not ready is raised only after the save: when the run ends with such an error,
  the state file holds the tuple of the fresh counters, with the requested pid, and that
  document loads back to the same tuple (unless the file was unreadable before the run).
\<close>

theorem persist_before_raise:
  assumes "Process_init lib pid' = None" and "is_running lib pid'"
    and "cpu_percent lib pid' (reload_previous (load_previous pid' path (files s)) new_process) =
           Inr (cpu, process')"
    and "parse_process pid' process' = Inr parsed"
    and "fst (get_pid_cpu_percent_body lib DEBUG pid' path s) = Raise e"
    and "degraded_error e"
  shows "(\<exists>r w. files (snd (get_pid_cpu_percent_body lib DEBUG pid' path s)) path =
            File r w (Doc (PyDict (asdict parsed)))) \<and>
         pid parsed = PyInt pid' \<and>
         cls_kwargs (PyDict (asdict parsed)) = Inr parsed \<and>
         (load_from_disk path (files (snd (get_pid_cpu_percent_body lib DEBUG pid' path s))) =
            Inr parsed \<or> (\<exists>w c. files s path = File False w c))"
proof (cases "can_write (files s) path")
  case False
  have "fst (get_pid_cpu_percent_body lib DEBUG pid' path s) =
      (if DEBUG then Raise (Exc PermissionError
          (Percent ''[Errno 13] Permission denied: %r'' [Val (PyStr path)])) else SysExit 3)"
    by (simp add: body_after_counters [OF assms(1-4)] write_json_cannot [OF False])
  then have False
    using assms(5,6) degraded_not_permission by (auto split: if_splits)
  then show ?thesis ..
next
  case True
  obtain r w where w: "write_json (files s) path (PyDict (asdict parsed)) =
        Inr ((files s)(path := File r w (Doc (PyDict (asdict parsed)))))"
      and r: "r \<or> (\<exists>c. files s path = File False w c)"
    using write_json_can_write [OF True] by blast
  have f: "files (snd (get_pid_cpu_percent_body lib DEBUG pid' path s)) =
      (files s)(path := File r w (Doc (PyDict (asdict parsed))))"
    by (simp add: body_after_counters [OF assms(1-4)] w)
  have l: "load_from_disk path (files (snd (get_pid_cpu_percent_body lib DEBUG pid' path s))) =
            Inr parsed \<or> (\<exists>w c. files s path = File False w c)"
    using r by (auto simp: f load_after_write)
  show ?thesis
    using l by (simp add: f parse_process_pid [OF assms(4)] cls_kwargs_asdict)
qed

lemma files_state_with: "files (state_with f) example_path = f"
  by (simp add: state_with_def)

lemma example_counters:
  "Process_init example_psutil 42 = None" "is_running example_psutil 42"
  by (simp_all add: example_psutil_def)

lemma example_no_baseline:
  "last_proc_cpu_times process = None \<Longrightarrow>
   cpu_percent example_psutil 42 process =
     Inr (PyFloat (Fin 0),
       process\<lparr>last_sys_cpu_times := PyFloat (Fin 110),
         last_proc_cpu_times := Some (Pcputimes (PyFloat (Fin 14)) (PyFloat (Fin 6))
           (PyFloat (Fin 1)) (PyFloat (Fin 2)) (PyFloat (Fin 3)))\<rparr>)"
  by (simp add: example_psutil_def spec_cpu_percent_def example_now_def)

lemma example_parse:
  "parse_process 42
     (process\<lparr>last_sys_cpu_times := PyFloat (Fin 110),
         last_proc_cpu_times := Some (Pcputimes (PyFloat (Fin 14)) (PyFloat (Fin 6))
           (PyFloat (Fin 1)) (PyFloat (Fin 2)) (PyFloat (Fin 3)))\<rparr>) = Inr example_parsed"
  by (simp add: parse_process_def example_parsed_def)

lemma example_load_missing:
  "load_previous 42 example_path (files (state_with (Missing True))) =
     \<lparr>has_load_missing = True, has_load_error = False, has_pid_changed = False,
      exc = Some (Exc FileNotFoundError
        (Percent ''[Errno 2] No such file or directory: %r'' [Val (PyStr example_path)])),
      previous = None\<rparr>"
  by (simp add: load_previous_def load_from_disk_object files_state_with)

lemma example_first_run:
  "fst (get_pid_cpu_percent_body example_psutil False 42 example_path (state_with (Missing True))) =
     Raise (first_run_error example_path (Exc FileNotFoundError
        (Percent ''[Errno 2] No such file or directory: %r'' [Val (PyStr example_path)])))"
proof -
  have c: "cpu_percent example_psutil 42
      (reload_previous (load_previous 42 example_path (files (state_with (Missing True)))) new_process) =
      Inr (PyFloat (Fin 0),
       new_process\<lparr>last_sys_cpu_times := PyFloat (Fin 110),
         last_proc_cpu_times := Some (Pcputimes (PyFloat (Fin 14)) (PyFloat (Fin 6))
           (PyFloat (Fin 1)) (PyFloat (Fin 2)) (PyFloat (Fin 3)))\<rparr>)"
    by (simp add: example_load_missing reload_previous_def example_no_baseline new_process_def)
  show ?thesis
    by (simp add: body_after_counters [OF example_counters c example_parse] example_load_missing
        raise_or_return_def write_json_def files_state_with)
qed

theorem persist_before_raise_witness:
  "Process_init example_psutil 42 = None \<and> is_running example_psutil 42 \<and>
   fst (get_pid_cpu_percent_body example_psutil False 42 example_path (state_with (Missing True))) =
     Raise (first_run_error example_path (Exc FileNotFoundError
        (Percent ''[Errno 2] No such file or directory: %r'' [Val (PyStr example_path)]))) \<and>
   degraded_error (first_run_error example_path (Exc FileNotFoundError
        (Percent ''[Errno 2] No such file or directory: %r'' [Val (PyStr example_path)]))) \<and>
   files (snd (get_pid_cpu_percent_body example_psutil False 42 example_path
      (state_with (Missing True)))) example_path = File True True (Doc (PyDict (asdict example_parsed))) \<and>
   load_from_disk example_path (files (snd (get_pid_cpu_percent_body example_psutil False 42
      example_path (state_with (Missing True))))) = Inr example_parsed"
proof -
  have c: "cpu_percent example_psutil 42
      (reload_previous (load_previous 42 example_path (files (state_with (Missing True)))) new_process) =
      Inr (PyFloat (Fin 0),
       new_process\<lparr>last_sys_cpu_times := PyFloat (Fin 110),
         last_proc_cpu_times := Some (Pcputimes (PyFloat (Fin 14)) (PyFloat (Fin 6))
           (PyFloat (Fin 1)) (PyFloat (Fin 2)) (PyFloat (Fin 3)))\<rparr>)"
    by (simp add: example_load_missing reload_previous_def example_no_baseline new_process_def)
  have d: "degraded_error (first_run_error example_path (Exc FileNotFoundError
        (Percent ''[Errno 2] No such file or directory: %r'' [Val (PyStr example_path)])))"
    by (simp add: first_run_error_def)
  have m: "\<not> (\<exists>w c. files (state_with (Missing True)) example_path = File False w c)"
    by (simp add: files_state_with)
  have f: "files (snd (get_pid_cpu_percent_body example_psutil False 42 example_path
      (state_with (Missing True)))) example_path = File True True (Doc (PyDict (asdict example_parsed)))"
    by (simp add: body_after_counters [OF example_counters c example_parse]
        write_json_def files_state_with)
  show ?thesis
    using persist_before_raise [OF example_counters c example_parse example_first_run d] m f
      example_first_run d example_counters
    by simp
qed

lemma load_flags_of_load:
  "load_previous pid' path fs =
     (case load_from_disk path fs of
        Inr prev \<Rightarrow>
          \<lparr>has_load_missing = False, has_load_error = False,
           has_pid_changed = py_ne_int (pid prev) pid', exc = None, previous = Some prev\<rparr>
      | Inl e \<Rightarrow>
          \<lparr>has_load_missing = (exc_class_of e = FileNotFoundError),
           has_load_error = (exc_class_of e \<noteq> FileNotFoundError), has_pid_changed = False,
           exc = Some e, previous = None\<rparr>)"
  by (simp add: load_previous_def split: sum.splits)

lemma load_existing_not_missing:
  "fs path = File r w d \<Longrightarrow> load_from_disk path fs = Inl e \<Longrightarrow>
     exc_class_of e \<noteq> FileNotFoundError"
  by (cases d)
    (auto simp: load_from_disk_object json_load_def bindE_def cls_kwargs_def kwarg_def
      split: if_splits pyval.splits option.splits)

text \<open>
  C3. In a run where the process exists and runs, the collaborator returns the
  percentage and the state file can be written, the tuple is saved and the run then ends
  by the condition of the load: no state file, the first-run error; a state file that
  does not load, the corrupted error with the exception of the load; a state file that
  loads with another pid, the pid-changed error; a state file that loads with the same
  pid, the percentage. The three errors differ from each other whatever their operands.
\<close>

theorem degraded_conditions_distinct:
  assumes "Process_init lib pid' = None" and "is_running lib pid'"
    and "cpu_percent lib pid' (reload_previous (load_previous pid' path (files s)) new_process) =
           Inr (cpu, process')"
    and "parse_process pid' process' = Inr parsed"
    and "can_write (files s) path"
  shows "fst (get_pid_cpu_percent_body lib DEBUG pid' path s) =
       (case files s path of
          Missing c \<Rightarrow>
            Raise (first_run_error path (Exc FileNotFoundError
              (Percent ''[Errno 2] No such file or directory: %r'' [Val (PyStr path)])))
        | File r w d \<Rightarrow>
            (case load_from_disk path (files s) of
               Inl e \<Rightarrow> Raise (corrupted_error path e)
             | Inr prev \<Rightarrow>
                 if py_ne_int (pid prev) pid' then Raise (pid_changed_error (pid prev) pid')
                 else Return cpu)) \<and>
     (\<exists>r w. files (snd (get_pid_cpu_percent_body lib DEBUG pid' path s)) path =
        File r w (Doc (PyDict (asdict parsed)))) \<and>
     pid_changed_error (PyInt q) pid' =
       Exc RuntimeError (Percent ''Process pid has changed from %d to %s''
         [Val (PyInt q), Val (PyInt pid')]) \<and>
     first_run_error p1 e1 \<noteq> corrupted_error p2 e2 \<and>
     first_run_error p1 e1 \<noteq> pid_changed_error v3 q3 \<and>
     corrupted_error p2 e2 \<noteq> pid_changed_error v3 q3"
proof -
  obtain r w where w: "write_json (files s) path (PyDict (asdict parsed)) =
        Inr ((files s)(path := File r w (Doc (PyDict (asdict parsed)))))"
    using write_json_can_write [OF assms(5)] by blast
  have b: "get_pid_cpu_percent_body lib DEBUG pid' path s =
      (raise_or_return (load_previous pid' path (files s)) path pid' cpu,
       s\<lparr>files := (files s)(path := File r w (Doc (PyDict (asdict parsed))))\<rparr>)"
    by (simp add: body_after_counters [OF assms(1-4)] w)
  have 1: "fst (get_pid_cpu_percent_body lib DEBUG pid' path s) =
       (case files s path of
          Missing c \<Rightarrow>
            Raise (first_run_error path (Exc FileNotFoundError
              (Percent ''[Errno 2] No such file or directory: %r'' [Val (PyStr path)])))
        | File r w d \<Rightarrow>
            (case load_from_disk path (files s) of
               Inl e \<Rightarrow> Raise (corrupted_error path e)
             | Inr prev \<Rightarrow>
                 if py_ne_int (pid prev) pid' then Raise (pid_changed_error (pid prev) pid')
                 else Return cpu))"
  proof (cases "files s path")
    case (Missing c)
    then show ?thesis
      by (simp add: b load_flags_of_load load_from_disk_object raise_or_return_def)
  next
    case (File r' w' d)
    show ?thesis
    proof (cases "load_from_disk path (files s)")
      case (Inl e)
      then show ?thesis
        using File load_existing_not_missing [OF File Inl]
        by (simp add: b load_flags_of_load raise_or_return_def)
    next
      case (Inr prev)
      then show ?thesis
        using File by (simp add: b load_flags_of_load raise_or_return_def)
    qed
  qed
  have 2: "\<exists>r w. files (snd (get_pid_cpu_percent_body lib DEBUG pid' path s)) path =
        File r w (Doc (PyDict (asdict parsed)))"
    by (simp add: b)
  have 3: "pid_changed_error (PyInt q) pid' =
       Exc RuntimeError (Percent ''Process pid has changed from %d to %s''
         [Val (PyInt q), Val (PyInt pid')])"
    by (simp add: pid_changed_error_def)
  have 4: "first_run_error p1 e1 \<noteq> corrupted_error p2 e2"
    by (simp add: first_run_error_def corrupted_error_def)
  have 5: "first_run_error p1 e1 \<noteq> pid_changed_error v3 q3"
    by (cases "percent_d v3"; cases v3 rule: percent_d.cases)
      (auto simp: first_run_error_def pid_changed_error_def)
  have 6: "corrupted_error p2 e2 \<noteq> pid_changed_error v3 q3"
    by (cases "percent_d v3"; cases v3 rule: percent_d.cases)
      (auto simp: corrupted_error_def pid_changed_error_def)
  show ?thesis
    using 1 2 3 4 5 6 by blast
qed

text \<open>
  C9. With the collaborator of the specification, a state file that loads with the
  requested pid and numeric timestamp, user and system, and a later timestamp now, the
  run returns 100 * ((user now - user before) + (system now - system before)) /
  (timestamp now - timestamp before), scaled by the collaborator's convention. No other
  counter takes part: iowait does not.
\<close>

theorem percentage_from_baseline:
  assumes "Process_init lib pid' = None" and "is_running lib pid'"
    and "cpu_percent lib = spec_cpu_percent scale lifetime now"
    and "load_from_disk path (files s) = Inr prev" and "\<not> py_ne_int (pid prev) pid'"
    and "fin_of (timestamp prev) = Some t0" and "fin_of (user prev) = Some u0"
    and "fin_of (system prev) = Some s0"
    and "now_timestamp now \<noteq> t0" and "can_write (files s) path"
  shows "fst (get_pid_cpu_percent_body lib DEBUG pid' path s) =
     Return (PyFloat (Fin (scale
       (100 * ((now_user now - u0) + (now_system now - s0)) / (now_timestamp now - t0)))))"
proof -
  let ?cpu = "PyFloat (Fin (scale
       (100 * ((now_user now - u0) + (now_system now - s0)) / (now_timestamp now - t0))))"
  let ?parsed = "\<lparr>pid = PyInt pid', timestamp = PyFloat (Fin (now_timestamp now)),
      user = PyFloat (Fin (now_user now)), system = PyFloat (Fin (now_system now)),
      children_user = PyFloat (Fin (now_children_user now)),
      children_system = PyFloat (Fin (now_children_system now)),
      iowait = PyFloat (Fin (now_iowait now))\<rparr>"
  have ld: "load_previous pid' path (files s) =
      \<lparr>has_load_missing = False, has_load_error = False, has_pid_changed = False,
       exc = None, previous = Some prev\<rparr>"
    using assms(4,5) by (simp add: load_flags_of_load)
  obtain process' where
    c: "cpu_percent lib pid' (reload_previous (load_previous pid' path (files s)) new_process) =
          Inr (?cpu, process')"
    and p: "parse_process pid' process' = Inr ?parsed"
    using assms(6-9)
    by (simp add: ld reload_previous_def assms(3) spec_cpu_percent_def new_process_def
        parse_process_def)
  obtain r w where w: "write_json (files s) path (PyDict (asdict ?parsed)) =
        Inr ((files s)(path := File r w (Doc (PyDict (asdict ?parsed)))))"
    using write_json_can_write [OF assms(10)] by blast
  show ?thesis
    by (simp add: body_after_counters [OF assms(1,2) c p] w ld raise_or_return_def)
qed

lemma example_lib:
  "Process_init example_psutil p = None" "is_running example_psutil p"
  "cpu_percent example_psutil = spec_cpu_percent (\<lambda>x. x) (PyFloat (Fin 0)) example_now"
  by (simp_all add: example_psutil_def)

lemma example_load_stored:
  "load_from_disk example_path (files (state_with (stored x))) = Inr x"
  by (simp add: load_from_disk_object files_state_with stored_def json_load_def bindE_def
      cls_kwargs_asdict)

lemma example_can_write:
  "can_write (files (state_with (stored x))) example_path"
  "can_write (files (state_with (Missing True))) example_path"
  "can_write (files (state_with (File True True Garbage))) example_path"
  by (simp_all add: can_write_def files_state_with stored_def)

theorem percentage_from_baseline_witness:
  "Process_init example_psutil 42 = None \<and> is_running example_psutil 42 \<and>
   load_from_disk example_path (files (state_with (stored example_previous))) =
     Inr example_previous \<and>
   \<not> py_ne_int (pid example_previous) 42 \<and>
   fin_of (timestamp example_previous) = Some 100 \<and>
   fin_of (user example_previous) = Some 10 \<and>
   fin_of (system example_previous) = Some 5 \<and>
   iowait example_previous = PyFloat (Fin 1) \<and> now_iowait example_now = 3 \<and>
   now_timestamp example_now \<noteq> 100 \<and>
   can_write (files (state_with (stored example_previous))) example_path \<and>
   fst (get_pid_cpu_percent_body example_psutil False 42 example_path
          (state_with (stored example_previous))) = Return (PyFloat (Fin 50))"
proof -
  have h: "\<not> py_ne_int (pid example_previous) 42"
    "fin_of (timestamp example_previous) = Some 100"
    "fin_of (user example_previous) = Some 10"
    "fin_of (system example_previous) = Some 5"
    "iowait example_previous = PyFloat (Fin 1)"
    by (simp_all add: example_previous_def)
  have n: "now_timestamp example_now \<noteq> 100" "now_iowait example_now = 3"
    by (simp_all add: example_now_def)
  show ?thesis
    using percentage_from_baseline [OF example_lib(1) example_lib(2) example_lib(3)
        example_load_stored h(1) h(2) h(3) h(4) n(1) example_can_write(1), of False]
      example_lib(1) [of 42] example_lib(2) [of 42] example_load_stored [of example_previous]
      h n example_can_write(1) [of example_previous]
    by (simp add: example_now_def)
qed

lemma example_fresh:
  "cpu_percent example_psutil p new_process =
     Inr (PyFloat (Fin 0),
       \<lparr>last_sys_cpu_times = PyFloat (Fin 110),
        last_proc_cpu_times = Some (Pcputimes (PyFloat (Fin 14)) (PyFloat (Fin 6))
           (PyFloat (Fin 1)) (PyFloat (Fin 2)) (PyFloat (Fin 3)))\<rparr>)"
  by (simp add: example_psutil_def spec_cpu_percent_def example_now_def new_process_def)

lemma example_seeded:
  "cpu_percent example_psutil p
     \<lparr>last_sys_cpu_times = PyFloat (Fin 100),
      last_proc_cpu_times = Some (Pcputimes (PyFloat (Fin 10)) (PyFloat (Fin 5))
        (PyFloat (Fin 1)) (PyFloat (Fin 1)) (PyFloat (Fin 1)))\<rparr> =
     Inr (PyFloat (Fin 50),
       \<lparr>last_sys_cpu_times = PyFloat (Fin 110),
        last_proc_cpu_times = Some (Pcputimes (PyFloat (Fin 14)) (PyFloat (Fin 6))
           (PyFloat (Fin 1)) (PyFloat (Fin 2)) (PyFloat (Fin 3)))\<rparr>)"
  by (simp add: example_psutil_def spec_cpu_percent_def example_now_def)

lemma example_parse_fresh:
  "parse_process p
     \<lparr>last_sys_cpu_times = PyFloat (Fin 110),
      last_proc_cpu_times = Some (Pcputimes (PyFloat (Fin 14)) (PyFloat (Fin 6))
         (PyFloat (Fin 1)) (PyFloat (Fin 2)) (PyFloat (Fin 3)))\<rparr> =
     Inr (example_parsed\<lparr>pid := PyInt p\<rparr>)"
  by (simp add: parse_process_def example_parsed_def)

lemma example_reload_missing:
  "reload_previous (load_previous p example_path (files (state_with (Missing True)))) new_process =
     new_process"
  by (simp add: load_flags_of_load load_from_disk_object files_state_with reload_previous_def)

lemma example_reload_garbage:
  "reload_previous (load_previous p example_path (files (state_with (File True True Garbage))))
     new_process = new_process"
  by (simp add: load_flags_of_load load_from_disk_object files_state_with reload_previous_def
      json_load_def bindE_def)

lemma example_reload_other_pid:
  "reload_previous (load_previous 43 example_path (files (state_with (stored example_previous))))
     new_process = new_process"
  by (simp add: load_flags_of_load example_load_stored reload_previous_def example_previous_def)

theorem degraded_conditions_distinct_witness:
  "Process_init example_psutil 42 = None \<and> is_running example_psutil 42 \<and>
   can_write (files (state_with (Missing True))) example_path \<and>
   can_write (files (state_with (File True True Garbage))) example_path \<and>
   can_write (files (state_with (stored example_previous))) example_path \<and>
   fst (get_pid_cpu_percent_body example_psutil False 42 example_path (state_with (Missing True))) =
     Raise (first_run_error example_path (Exc FileNotFoundError
        (Percent ''[Errno 2] No such file or directory: %r'' [Val (PyStr example_path)]))) \<and>
   fst (get_pid_cpu_percent_body example_psutil False 42 example_path
          (state_with (File True True Garbage))) =
     Raise (corrupted_error example_path (Exc JSONDecodeError (Percent ''Expecting value'' []))) \<and>
   fst (get_pid_cpu_percent_body example_psutil False 43 example_path
          (state_with (stored example_previous))) =
     Raise (Exc RuntimeError (Percent ''Process pid has changed from %d to %s''
         [Val (PyInt 42), Val (PyInt 43)])) \<and>
   fst (get_pid_cpu_percent_body example_psutil False 42 example_path
          (state_with (stored example_previous))) = Return (PyFloat (Fin 50))"
proof -
  let ?fresh = "\<lparr>last_sys_cpu_times = PyFloat (Fin 110),
        last_proc_cpu_times = Some (Pcputimes (PyFloat (Fin 14)) (PyFloat (Fin 6))
           (PyFloat (Fin 1)) (PyFloat (Fin 2)) (PyFloat (Fin 3)))\<rparr>"
  have ha: "cpu_percent example_psutil 42 (reload_previous (load_previous 42 example_path
        (files (state_with (Missing True)))) new_process) = Inr (PyFloat (Fin 0), ?fresh)"
    by (simp add: example_reload_missing example_fresh)
  have a: "fst (get_pid_cpu_percent_body example_psutil False 42 example_path
        (state_with (Missing True))) =
     Raise (first_run_error example_path (Exc FileNotFoundError
        (Percent ''[Errno 2] No such file or directory: %r'' [Val (PyStr example_path)])))"
    using degraded_conditions_distinct [OF example_lib(1) example_lib(2) ha example_parse_fresh
        example_can_write(2), where DEBUG = False]
    by (simp add: files_state_with)
  have hb: "cpu_percent example_psutil 42 (reload_previous (load_previous 42 example_path
        (files (state_with (File True True Garbage)))) new_process) = Inr (PyFloat (Fin 0), ?fresh)"
    by (simp add: example_reload_garbage example_fresh)
  have b: "fst (get_pid_cpu_percent_body example_psutil False 42 example_path
          (state_with (File True True Garbage))) =
     Raise (corrupted_error example_path (Exc JSONDecodeError (Percent ''Expecting value'' [])))"
    using degraded_conditions_distinct [OF example_lib(1) example_lib(2) hb example_parse_fresh
        example_can_write(3), where DEBUG = False]
    by (simp add: files_state_with load_from_disk_object json_load_def bindE_def)
  have hc: "cpu_percent example_psutil 43 (reload_previous (load_previous 43 example_path
        (files (state_with (stored example_previous)))) new_process) = Inr (PyFloat (Fin 0), ?fresh)"
    by (simp add: example_reload_other_pid example_fresh)
  have slot: "files (state_with (stored example_previous)) example_path =
      File True True (Doc (PyDict (asdict example_previous)))"
    by (simp add: files_state_with stored_def)
  have pid42: "pid example_previous = PyInt 42"
    by (simp add: example_previous_def)
  have c: "fst (get_pid_cpu_percent_body example_psutil False 43 example_path
          (state_with (stored example_previous))) =
     Raise (Exc RuntimeError (Percent ''Process pid has changed from %d to %s''
         [Val (PyInt 42), Val (PyInt 43)]))"
    using degraded_conditions_distinct [OF example_lib(1) example_lib(2) hc example_parse_fresh
        example_can_write(1), where DEBUG = False]
    by (simp add: slot example_load_stored pid42 pid_changed_error_def)
  have seeded: "reload_previous (load_previous 42 example_path
        (files (state_with (stored example_previous)))) new_process =
      \<lparr>last_sys_cpu_times = PyFloat (Fin 100),
       last_proc_cpu_times = Some (Pcputimes (PyFloat (Fin 10)) (PyFloat (Fin 5))
         (PyFloat (Fin 1)) (PyFloat (Fin 1)) (PyFloat (Fin 1)))\<rparr>"
    by (simp add: load_flags_of_load example_load_stored reload_previous_def
        example_previous_def new_process_def)
  have hd: "cpu_percent example_psutil 42 (reload_previous (load_previous 42 example_path
        (files (state_with (stored example_previous)))) new_process) = Inr (PyFloat (Fin 50), ?fresh)"
    by (simp add: seeded example_seeded)
  have d: "fst (get_pid_cpu_percent_body example_psutil False 42 example_path
          (state_with (stored example_previous))) = Return (PyFloat (Fin 50))"
    using degraded_conditions_distinct [OF example_lib(1) example_lib(2) hd example_parse_fresh
        example_can_write(1), where DEBUG = False]
    by (simp add: slot example_load_stored pid42)
  show ?thesis
    using a b c d example_lib(1) [of 42] example_lib(2) [of 42] example_can_write
    by simp
qed

section \<open>The main program: severity and exit code\<close>

text \<open>
  A decorated function never lets an exception out when \<^verbatim>\<open>DEBUG\<close> is off: it prints
  the \<^verbatim>\<open>UNKNOWN\<close> line and exits with code 3.
\<close>

lemma tb2unknown_exits:
  "method s = (Raise e, s') \<Longrightarrow>
     tb2unknown False name method s =
       (SysExit 3, print (Percent ''UNKNOWN: Got exception while running %s: %s: %s''
          [Val (PyStr name), Val (PyStr (class_name (exc_class_of e))),
           Str (case e of Exc c m \<Rightarrow> m)]) s')"
  by (simp add: tb2unknown_def)

lemma is_outside_boundaries_numeric:
  "num_of v = Some x \<Longrightarrow> \<exists>o'. is_outside_boundaries t v = Inr o'"
  by (simp add: is_outside_boundaries_def)

text \<open>
  C7. With both thresholds parsed and a numeric percentage, the program prints one line
  and exits. A violation of the critical range gives the \<^verbatim>\<open>CRITICAL\<close> message with
  that violation and exit code 2, whatever the warning range says; otherwise a violation
  of the warning range gives the \<^verbatim>\<open>WARNING\<close> message and exit code 1; otherwise the
  \<^verbatim>\<open>OK\<close> message, which shows the percentage inside the warning range's boundaries,
  and exit code 0.
\<close>

theorem critical_before_warning:
  assumes "NagiosThreshold_init (warning CONFIG) = Inr tw"
    and "NagiosThreshold_init (critical CONFIG) = Inr tc"
    and "num_of v = Some x"
  shows "\<exists>ow oc.
     is_outside_boundaries tw v = Inr ow \<and> is_outside_boundaries tc v = Inr oc \<and>
     report CONFIG (Some n) PID v s =
       (Exit (case oc of Some d \<Rightarrow> 2 | None \<Rightarrow> (case ow of Some d \<Rightarrow> 1 | None \<Rightarrow> 0)),
        print (Percent ''%s|%s''
          [Str (case oc of
                  Some d \<Rightarrow>
                    Percent ''CRITICAL: %1.f%% CPU usage for PID %d is outside critical limits (%s)''
                      [Val v, Val (PyInt PID), Str d]
                | None \<Rightarrow>
                    (case ow of
                       Some d \<Rightarrow>
                         Percent ''WARNING: %.1f%% CPU usage for PID %d is outside warning limits (%s)''
                           [Val v, Val (PyInt PID), Str d]
                     | None \<Rightarrow>
                         Percent ''OK: %.1f%% CPU usage for PID %d is inside limits (%s%s%s and %s%s%s)''
                           [Val v, Val (PyInt PID), Val v,
                            Val (PyStr (if inclusive tw then ''>='' else ''>'')),
                            Val (PyFloat (low_boundary tw)), Val v,
                            Val (PyStr (if inclusive tw then ''<='' else ''<'')),
                            Val (PyFloat (high_boundary tw))])),
           Str (Percent ''cpu_percentage=%.1f%%;%s..%s;%s..%s;0;%d''
                  [Val v, Val (PyFloat (low_boundary tw)), Val (PyFloat (high_boundary tw)),
                   Val (PyFloat (low_boundary tc)), Val (PyFloat (high_boundary tc)),
                   Val (PyInt (n * 100))])]) s)"
proof -
  obtain ow where ow: "is_outside_boundaries tw v = Inr ow"
    using is_outside_boundaries_numeric [OF assms(3)] by blast
  obtain oc where oc: "is_outside_boundaries tc v = Inr oc"
    using is_outside_boundaries_numeric [OF assms(3)] by blast
  show ?thesis
    by (simp add: report_def assms(1,2) ow oc message_and_code_def Let_def
        split: option.splits)
qed

lemma threshold_40: "NagiosThreshold_init ''40'' =
    Inr \<lparr>inclusive = False, low_boundary = Fin 0, high_boundary = Fin 40\<rparr>"
  using NagiosThreshold_init_form [of "UpTo (Whole ''40'')" False]
  by (simp add: threshold_text_def digits_text_def is_digit_def nat_of_digits_def digit_val_def)

lemma threshold_60: "NagiosThreshold_init ''60'' =
    Inr \<lparr>inclusive = False, low_boundary = Fin 0, high_boundary = Fin 60\<rparr>"
  using NagiosThreshold_init_form [of "UpTo (Whole ''60'')" False]
  by (simp add: threshold_text_def digits_text_def is_digit_def nat_of_digits_def digit_val_def)

theorem critical_before_warning_witness:
  "NagiosThreshold_init (warning \<lparr>warning = ''40'', critical = ''60'', pid_cmd = ''echo 42'', debug = False\<rparr>) =
     Inr \<lparr>inclusive = False, low_boundary = Fin 0, high_boundary = Fin 40\<rparr> \<and>
   NagiosThreshold_init (critical \<lparr>warning = ''40'', critical = ''60'', pid_cmd = ''echo 42'', debug = False\<rparr>) =
     Inr \<lparr>inclusive = False, low_boundary = Fin 0, high_boundary = Fin 60\<rparr> \<and>
   num_of (PyFloat (Fin 70)) = Some (Fin 70) \<and>
   is_outside_boundaries \<lparr>inclusive = False, low_boundary = Fin 0, high_boundary = Fin 40\<rparr>
       (PyFloat (Fin 70)) =
     Inr (Some (Percent ''%s>=%s'' [Val (PyFloat (Fin 70)), Val (PyFloat (Fin 40))])) \<and>
   fst (report \<lparr>warning = ''40'', critical = ''60'', pid_cmd = ''echo 42'', debug = False\<rparr>
          (Some 4) 42 (PyFloat (Fin 70)) (state_with (Missing True))) = Exit 2 \<and>
   fst (report \<lparr>warning = ''40'', critical = ''60'', pid_cmd = ''echo 42'', debug = False\<rparr>
          (Some 4) 42 (PyFloat (Fin 50)) (state_with (Missing True))) = Exit 1 \<and>
   fst (report \<lparr>warning = ''40'', critical = ''60'', pid_cmd = ''echo 42'', debug = False\<rparr>
          (Some 4) 42 (PyFloat (Fin 30)) (state_with (Missing True))) = Exit 0"
proof -
  let ?C = "\<lparr>warning = ''40'', critical = ''60'', pid_cmd = ''echo 42'', debug = False\<rparr>"
  have w: "NagiosThreshold_init (warning ?C) =
      Inr \<lparr>inclusive = False, low_boundary = Fin 0, high_boundary = Fin 40\<rparr>"
    by (simp add: threshold_40)
  have c: "NagiosThreshold_init (critical ?C) =
      Inr \<lparr>inclusive = False, low_boundary = Fin 0, high_boundary = Fin 60\<rparr>"
    by (simp add: threshold_60)
  have n: "num_of (PyFloat (Fin 70)) = Some (Fin 70)" "num_of (PyFloat (Fin 50)) = Some (Fin 50)"
    "num_of (PyFloat (Fin 30)) = Some (Fin 30)"
    by simp_all
  have 70: "fst (report ?C (Some 4) 42 (PyFloat (Fin 70)) (state_with (Missing True))) = Exit 2"
    using critical_before_warning [OF w c n(1), of 4 42 "state_with (Missing True)"]
    by (auto simp: is_outside_boundaries_def float_le_def)
  have 50: "fst (report ?C (Some 4) 42 (PyFloat (Fin 50)) (state_with (Missing True))) = Exit 1"
    using critical_before_warning [OF w c n(2), of 4 42 "state_with (Missing True)"]
    by (auto simp: is_outside_boundaries_def float_le_def)
  have 30: "fst (report ?C (Some 4) 42 (PyFloat (Fin 30)) (state_with (Missing True))) = Exit 0"
    using critical_before_warning [OF w c n(3), of 4 42 "state_with (Missing True)"]
    by (auto simp: is_outside_boundaries_def float_le_def)
  show ?thesis
    using w c n(1) 70 50 30 by (simp add: is_outside_boundaries_def float_le_def)
qed

lemma example_pid:
  "get_pid_from_command False (popen (example_world w c)) ''echo 42'' s = (Return 42, s)"
  by (simp add: get_pid_from_command_def tb2unknown_def example_world_def strip_def isdigit_def
      is_space_def is_digit_def nat_of_digits_def digit_val_def)

lemma example_percent:
  "get_pid_cpu_percent example_psutil False 42 example_path (state_with (stored example_previous)) =
     (Return (PyFloat (Fin 50)),
      (state_with (stored example_previous))\<lparr>files :=
         (files (state_with (stored example_previous)))(example_path := stored example_parsed)\<rparr>)"
proof -
  let ?fresh = "\<lparr>last_sys_cpu_times = PyFloat (Fin 110),
        last_proc_cpu_times = Some (Pcputimes (PyFloat (Fin 14)) (PyFloat (Fin 6))
           (PyFloat (Fin 1)) (PyFloat (Fin 2)) (PyFloat (Fin 3)))\<rparr>"
  have ld: "load_previous 42 example_path (files (state_with (stored example_previous))) =
      \<lparr>has_load_missing = False, has_load_error = False, has_pid_changed = False,
       exc = None, previous = Some example_previous\<rparr>"
    by (simp add: load_flags_of_load example_load_stored) (simp add: example_previous_def)
  have hd: "cpu_percent example_psutil 42 (reload_previous (load_previous 42 example_path
        (files (state_with (stored example_previous)))) new_process) = Inr (PyFloat (Fin 50), ?fresh)"
  proof -
    have "reload_previous (load_previous 42 example_path
        (files (state_with (stored example_previous)))) new_process =
      \<lparr>last_sys_cpu_times = PyFloat (Fin 100),
       last_proc_cpu_times = Some (Pcputimes (PyFloat (Fin 10)) (PyFloat (Fin 5))
         (PyFloat (Fin 1)) (PyFloat (Fin 1)) (PyFloat (Fin 1)))\<rparr>"
      by (simp add: ld reload_previous_def new_process_def) (simp add: example_previous_def)
    then show ?thesis by (simp add: example_seeded)
  qed
  have p: "parse_process 42 ?fresh = Inr example_parsed"
    by (simp add: parse_process_def example_parsed_def)
  have w: "write_json (files (state_with (stored example_previous))) example_path
      (PyDict (asdict example_parsed)) =
      Inr ((files (state_with (stored example_previous)))(example_path := stored example_parsed))"
    by (simp add: write_json_def files_state_with stored_def)
  show ?thesis
    by (simp add: get_pid_cpu_percent_def tb2unknown_def
        body_after_counters [OF example_lib(1) example_lib(2) hd p] w ld raise_or_return_def)
qed

text \<open>
  C5. The thresholds are built after the decorated functions have returned, outside any
  handler. With an empty warning threshold and a state file that is ready, the assertion
  of the constructor ends the program uncaught: nothing is printed on standard output and
  the exit status is 1, not 3.
\<close>

theorem empty_threshold_escapes:
  "fst (main (example_world '''' ''90'') (state_with (stored example_previous))) =
     Uncaught (Exc AssertionError (Percent ''raw parameter must be a non-empty string'' [])) \<and>
   stdout (snd (main (example_world '''' ''90'') (state_with (stored example_previous)))) = [] \<and>
   exit_status (fst (main (example_world '''' ''90'') (state_with (stored example_previous)))) = 1"
proof -
  have a: "argv (example_world '''' ''90'') =
      Namespace \<lparr>warning = '''', critical = ''90'', pid_cmd = ''echo 42'', debug = False\<rparr>"
    "ps (example_world '''' ''90'') = example_psutil"
    "buffer_path (example_world '''' ''90'') 42 = example_path"
    by (simp_all add: example_world_def)
  have m: "main (example_world '''' ''90'') (state_with (stored example_previous)) =
      (Uncaught (Exc AssertionError (Percent ''raw parameter must be a non-empty string'' [])),
       (state_with (stored example_previous))\<lparr>files :=
         (files (state_with (stored example_previous)))(example_path := stored example_parsed)\<rparr>)"
    by (simp add: main_def a example_pid example_percent report_def NagiosThreshold_init_def)
  show ?thesis
    by (simp add: m) (simp add: state_with_def)
qed

end
